theory Spec2Isabelle
  imports Complex_Main
begin

section \<open>The expiring cache (package cache)\<close>

text \<open>
  Instants and durations are integers (nanoseconds). \<open>time.Now().After(e)\<close> is the strict
  comparison \<open>e < now\<close>, and \<open>time.Now().Add(d)\<close> is \<open>now + d\<close>. Every operation takes
  the reading of the clock at the moment it holds the lock as an argument.

  \<open>Get\<close> returns \<open>None\<close> for Go's \<open>(nil, false)\<close> and \<open>Some v\<close> for \<open>(v, true)\<close>.
\<close>

type_synonym time = int

record 'v item =
  item_value :: 'v
  expiration :: time

record 'v Cache =
  items :: "string \<rightharpoonup> 'v item"
  ttl :: time

definition NewCache :: "time \<Rightarrow> 'v Cache" where
  "NewCache d = \<lparr>items = Map.empty, ttl = d\<rparr>"

definition Get :: "'v Cache \<Rightarrow> time \<Rightarrow> string \<Rightarrow> 'v option" where
  "Get c now key =
     (case items c key of
        None \<Rightarrow> None
      | Some it \<Rightarrow> if expiration it < now then None else Some (item_value it))"

definition Set :: "'v Cache \<Rightarrow> time \<Rightarrow> string \<Rightarrow> 'v \<Rightarrow> 'v Cache" where
  "Set c now key v =
     c\<lparr>items := (items c)(key \<mapsto> \<lparr>item_value = v, expiration = now + ttl c\<rparr>)\<rparr>"

definition SetWithTTL :: "'v Cache \<Rightarrow> time \<Rightarrow> string \<Rightarrow> 'v \<Rightarrow> time \<Rightarrow> 'v Cache" where
  "SetWithTTL c now key v d =
     c\<lparr>items := (items c)(key \<mapsto> \<lparr>item_value = v, expiration = now + d\<rparr>)\<rparr>"

definition Delete :: "'v Cache \<Rightarrow> string \<Rightarrow> 'v Cache" where
  "Delete c key = c\<lparr>items := (items c)(key := None)\<rparr>"

text \<open>
  One round of the loop body of \<open>cleanup\<close>, run under the write lock at clock reading
  \<open>now\<close>: every entry with \<open>now.After(item.expiration)\<close> is deleted.
\<close>

definition cleanup :: "'v Cache \<Rightarrow> time \<Rightarrow> 'v Cache" where
  "cleanup c now =
     c\<lparr>items := (\<lambda>key. case items c key of
                      None \<Rightarrow> None
                    | Some it \<Rightarrow> if expiration it < now then None else Some it)\<rparr>"

text \<open>
  A history of the cache: the writes, deletions and sweeps that the services and the cleanup
  goroutine perform, each under the write lock, in the order in which they take the lock.
\<close>

datatype 'v cache_op =
    DoSet time string 'v
  | DoSetWithTTL time string 'v time
  | DoDelete string
  | DoSweep time

fun apply_op :: "'v Cache \<Rightarrow> 'v cache_op \<Rightarrow> 'v Cache" where
  "apply_op c (DoSet now key v) = Set c now key v"
| "apply_op c (DoSetWithTTL now key v d) = SetWithTTL c now key v d"
| "apply_op c (DoDelete key) = Delete c key"
| "apply_op c (DoSweep now) = cleanup c now"

definition run_ops :: "'v Cache \<Rightarrow> 'v cache_op list \<Rightarrow> 'v Cache" where
  "run_ops c ops = foldl apply_op c ops"

fun is_sweep :: "'v cache_op \<Rightarrow> bool" where
  "is_sweep (DoSweep t) = True"
| "is_sweep _ = False"

text \<open>A sweep of the history ran no later than the instant \<open>now\<close>.\<close>

fun sweep_by :: "time \<Rightarrow> 'v cache_op \<Rightarrow> bool" where
  "sweep_by now (DoSweep t) = (t \<le> now)"
| "sweep_by now _ = True"

text \<open>
  \<open>c1\<close> is \<open>c2\<close> after some sweeps no later than \<open>now\<close>: it may lack entries of \<open>c2\<close>, all of
  them expired before \<open>now\<close>.
\<close>

definition swept :: "time \<Rightarrow> 'v Cache \<Rightarrow> 'v Cache \<Rightarrow> bool" where
  "swept now c1 c2 =
     (ttl c1 = ttl c2
      \<and> (\<forall>key. items c1 key = items c2 key
                \<or> (items c1 key = None \<and> (\<exists>it. items c2 key = Some it \<and> expiration it < now))))"

section \<open>Decoded JSON, type assertions, formatting\<close>

text \<open>
  A value of Go's \<open>interface{}\<close> as \<open>encoding/json\<close> decodes it: \<open>nil\<close>, \<open>bool\<close>,
  \<open>float64\<close>, \<open>string\<close>, \<open>[]interface{}\<close> and \<open>map[string]interface{}\<close>. A number is
  the exact rational value of the \<open>float64\<close> (a negative zero is not told apart from zero).
  An object is the association list of the decoded map, looked up with \<open>map_of\<close>.
\<close>

datatype json =
    JNull
  | JBool bool
  | JNum rat
  | JStr string
  | JArr "json list"
  | JObj "(string \<times> json) list"

type_synonym jmap = "(string \<times> json) list"

text \<open>\<open>m[key]\<close> on a map: the value, or \<open>nil\<close> when the key is missing.\<close>

definition jget :: "jmap \<Rightarrow> string \<Rightarrow> json" where
  "jget m key = (case map_of m key of None \<Rightarrow> JNull | Some v \<Rightarrow> v)"

text \<open>The comma-ok type assertions \<open>v, ok := x.(T)\<close>: \<open>None\<close> is \<open>ok = false\<close>.\<close>

fun as_string :: "json \<Rightarrow> string option" where
  "as_string (JStr s) = Some s"
| "as_string _ = None"

fun as_float64 :: "json \<Rightarrow> rat option" where
  "as_float64 (JNum x) = Some x"
| "as_float64 _ = None"

fun as_bool :: "json \<Rightarrow> bool option" where
  "as_bool (JBool b) = Some b"
| "as_bool _ = None"

fun as_slice :: "json \<Rightarrow> json list option" where
  "as_slice (JArr xs) = Some xs"
| "as_slice _ = None"

fun as_map :: "json \<Rightarrow> jmap option" where
  "as_map (JObj m) = Some m"
| "as_map _ = None"

text \<open>
  A function that can panic returns an \<open>outcome\<close>: an assertion \<open>x.(T)\<close> without the
  second result panics when \<open>x\<close> does not hold a \<open>T\<close>.
\<close>

datatype 'a outcome = Panic | Ret 'a

text \<open>
  \<open>int(x)\<close> of a \<open>float64\<close>: \<open>int\<close> has 64 bits. A value whose truncation towards zero
  fits is converted to it. For a value out of range the language leaves the result to the
  implementation; the compiled code (amd64) gives the least \<open>int\<close>, which is what the
  definition returns.
\<close>

definition min_int :: int where
  "min_int = - (2 ^ 63)"

definition max_int :: int where
  "max_int = 2 ^ 63 - 1"

definition int_of_float64 :: "rat \<Rightarrow> int" where
  "int_of_float64 x =
     (let t = (if 0 \<le> x then \<lfloor>x\<rfloor> else \<lceil>x\<rceil>)
      in if min_int \<le> t \<and> t \<le> max_int then t else min_int)"

definition digit_char :: "nat \<Rightarrow> char" where
  "digit_char d =
     (if d = 0 then CHR ''0'' else if d = 1 then CHR ''1'' else if d = 2 then CHR ''2''
      else if d = 3 then CHR ''3'' else if d = 4 then CHR ''4'' else if d = 5 then CHR ''5''
      else if d = 6 then CHR ''6'' else if d = 7 then CHR ''7'' else if d = 8 then CHR ''8''
      else CHR ''9'')"

fun decimal :: "nat \<Rightarrow> string" where
  "decimal n = (if n < 10 then [digit_char n] else decimal (n div 10) @ [digit_char (n mod 10)])"

declare decimal.simps [simp del]

text \<open>\<open>fmt.Sprintf("%d", i)\<close>.\<close>

definition Sprintf_d :: "int \<Rightarrow> string" where
  "Sprintf_d i = (if i < 0 then CHR ''-'' # decimal (nat (- i)) else decimal (nat i))"

text \<open>
  \<open>fmt.Sprintf("%.0f", x)\<close> and \<open>fmt.Sprintf("%.1f", x)\<close>: the exact value rounded to the
  nearest multiple of \<open>10^-p\<close>, ties to even, written in decimal with \<open>p\<close> fraction digits.
\<close>

definition round_half_even :: "rat \<Rightarrow> int" where
  "round_half_even x =
     (let f = \<lfloor>x\<rfloor>; d = x - of_int f
      in if d < 1 / 2 then f else if 1 / 2 < d then f + 1 else if even f then f else f + 1)"

definition Sprintf_f :: "nat \<Rightarrow> rat \<Rightarrow> string" where
  "Sprintf_f p x =
     (let n = nat (round_half_even (\<bar>x\<bar> * 10 ^ p));
          ip = decimal (n div 10 ^ p);
          fp = decimal (n mod 10 ^ p)
      in (if x < 0 then [CHR ''-''] else []) @ ip
         @ (if p = 0 then [] else CHR ''.'' # replicate (p - length fp) CHR ''0'' @ fp))"

section \<open>HTTP collaborators\<close>

text \<open>
  What one HTTP exchange gives back: a transport error (\<open>err != nil\<close> from the client), or a
  response with its status code and its body; the body is \<open>None\<close> when it is not valid
  JSON. The calls a function makes are collected in a log, in order.
\<close>

datatype http_result = TransportError | Response int "json option"

datatype error =
    NoIDProvided
  | TransportFailed
  | BadStatus int
  | DecodeFailed
  | MDBListError
  | APIKeyNotConfigured
  | QueryFailed
  | ScanFailed

datatype call =
    CallMDBList "(string \<times> string) list"
  | CallRT string string
  | CallTMDB string "(string \<times> string) list"
  | CallArr string
  | CallDB string

text \<open>
  \<open>json.NewDecoder(body).Decode(&data)\<close> with \<open>data\<close> a \<open>map[string]interface{}\<close>: an
  object fills the map, \<open>null\<close> leaves the nil map (which reads as the empty map), anything
  else is an error.
\<close>

definition decode_map :: "json option \<Rightarrow> jmap option" where
  "decode_map body =
     (case body of
        Some (JObj m) \<Rightarrow> Some m
      | Some JNull \<Rightarrow> Some []
      | _ \<Rightarrow> None)"

section \<open>The ratings service (ratings.go)\<close>

record RatingsResult =
  RottenTomatoes :: "int option"
  RTAudienceScore :: "int option"
  RTCertified :: bool
  IMDB :: string
  Metacritic :: "int option"

definition empty_result :: RatingsResult where
  "empty_result =
     \<lparr>RottenTomatoes = None, RTAudienceScore = None, RTCertified = False,
      IMDB = [], Metacritic = None\<rparr>"

subsection \<open>getMDBListRatings\<close>

definition mdblist_params :: "string \<Rightarrow> string \<Rightarrow> int \<Rightarrow> string \<Rightarrow> (string \<times> string) list option" where
  "mdblist_params apiKey imdbID tmdbID mediaType =
     (if imdbID \<noteq> [] then Some [(''apikey'', apiKey), (''i'', imdbID)]
      else if 0 < tmdbID then
        Some [(''apikey'', apiKey), (''tm'', Sprintf_d tmdbID),
              (''m'', if mediaType = ''tv'' \<or> mediaType = ''series'' then ''show'' else ''movie'')]
      else None)"

text \<open>The body of the loop over \<open>data["ratings"]\<close>, for one element.\<close>

definition mdb_rating :: "RatingsResult \<Rightarrow> json \<Rightarrow> RatingsResult outcome" where
  "mdb_rating res r =
     (case as_map r of
        None \<Rightarrow> Panic
      | Some rating \<Rightarrow>
          let source = (case as_string (jget rating ''source'') of Some s \<Rightarrow> s | None \<Rightarrow> []);
              v = (case as_float64 (jget rating ''value'') of Some x \<Rightarrow> x | None \<Rightarrow> 0)
          in Ret (if source = ''imdb'' then res\<lparr>IMDB := Sprintf_f 1 v\<rparr>
                  else if source = ''tomatoes'' then res\<lparr>RottenTomatoes := Some (int_of_float64 v)\<rparr>
                  else if source = ''tomatoesaudience'' then res\<lparr>RTAudienceScore := Some (int_of_float64 v)\<rparr>
                  else if source = ''metacritic'' then res\<lparr>Metacritic := Some (int_of_float64 v)\<rparr>
                  else res))"

fun mdb_ratings_loop :: "RatingsResult \<Rightarrow> json list \<Rightarrow> RatingsResult outcome" where
  "mdb_ratings_loop res [] = Ret res"
| "mdb_ratings_loop res (r # rs) =
     (case mdb_rating res r of
        Panic \<Rightarrow> Panic
      | Ret res' \<Rightarrow> mdb_ratings_loop res' rs)"

text \<open>What \<open>getMDBListRatings\<close> does with the response, once the request has been sent.\<close>

definition mdblist_response :: "http_result \<Rightarrow> (error + RatingsResult) outcome" where
  "mdblist_response resp =
     (case resp of
        TransportError \<Rightarrow> Ret (Inl TransportFailed)
      | Response status body \<Rightarrow>
          if status \<noteq> 200 then Ret (Inl (BadStatus status))
          else (case decode_map body of
                  None \<Rightarrow> Ret (Inl DecodeFailed)
                | Some data \<Rightarrow>
                    if jget data ''error'' \<noteq> JNull then Ret (Inl MDBListError)
                    else (case as_slice (jget data ''ratings'') of
                            None \<Rightarrow> Ret (Inr empty_result)
                          | Some ratings \<Rightarrow>
                              (case mdb_ratings_loop empty_result ratings of
                                 Panic \<Rightarrow> Panic
                               | Ret res \<Rightarrow> Ret (Inr res)))))"

definition getMDBListRatings ::
  "string \<Rightarrow> string \<Rightarrow> int \<Rightarrow> string \<Rightarrow> http_result \<Rightarrow> (error + RatingsResult) outcome \<times> call list" where
  "getMDBListRatings apiKey imdbID tmdbID mediaType resp =
     (case mdblist_params apiKey imdbID tmdbID mediaType of
        None \<Rightarrow> (Ret (Inl NoIDProvided), [])
      | Some params \<Rightarrow> (mdblist_response resp, [CallMDBList params]))"

subsection \<open>getRTRatings\<close>

definition rt_query :: "string \<Rightarrow> string \<Rightarrow> string" where
  "rt_query title year = (if year \<noteq> [] then title @ '' '' @ year else title)"

definition rt_filter :: "string \<Rightarrow> string" where
  "rt_filter mediaType =
     ''isEmsSearchable:true''
       @ (if mediaType = ''movie'' then '' AND type:movie'' else '' AND type:tvSeries'')"

text \<open>
  The loop "Find best match" over \<open>hits\<close>, with \<open>bestMatch\<close> as an accumulator (\<open>None\<close> is
  the nil map). \<open>break\<close> returns at once, so the hits after it are not even asserted.
\<close>

definition hit_title :: "jmap \<Rightarrow> string" where
  "hit_title hit = (case as_string (jget hit ''title'') of Some s \<Rightarrow> s | None \<Rightarrow> [])"

definition hit_year :: "jmap \<Rightarrow> rat" where
  "hit_year hit = (case as_float64 (jget hit ''releaseYear'') of Some x \<Rightarrow> x | None \<Rightarrow> 0)"

fun bestMatch_loop :: "string \<Rightarrow> string \<Rightarrow> jmap option \<Rightarrow> json list \<Rightarrow> jmap option outcome" where
  "bestMatch_loop title year bestMatch [] = Ret bestMatch"
| "bestMatch_loop title year bestMatch (h # hs) =
     (case as_map h of
        None \<Rightarrow> Panic
      | Some hit \<Rightarrow>
          let hitTitle = hit_title hit;
              hitYear = hit_year hit
          in if hitTitle = title then
               (if year \<noteq> [] \<and> 0 < hitYear \<and> Sprintf_f 0 hitYear = year then Ret (Some hit)
                else if bestMatch = None then bestMatch_loop title year (Some hit) hs
                else bestMatch_loop title year bestMatch hs)
             else if bestMatch = None then bestMatch_loop title year (Some hit) hs
             else bestMatch_loop title year bestMatch hs)"

text \<open>
  The test of lines 201 and 202 under which the loop breaks: the hit's title is the target
  title, the target year is not empty, and the hit's year is positive and prints as the
  target year.
\<close>

definition exact_match :: "string \<Rightarrow> string \<Rightarrow> jmap \<Rightarrow> bool" where
  "exact_match title year hit =
     (hit_title hit = title \<and> year \<noteq> [] \<and> 0 < hit_year hit \<and> Sprintf_f 0 (hit_year hit) = year)"

definition rt_result_of :: "jmap \<Rightarrow> RatingsResult" where
  "rt_result_of bestMatch =
     (case as_map (jget bestMatch ''rottenTomatoes'') of
        None \<Rightarrow> empty_result
      | Some rtData \<Rightarrow>
          let r1 = (case as_float64 (jget rtData ''criticsScore'') of
                      Some x \<Rightarrow> empty_result\<lparr>RottenTomatoes := Some (int_of_float64 x)\<rparr>
                    | None \<Rightarrow> empty_result);
              r2 = (case as_float64 (jget rtData ''audienceScore'') of
                      Some x \<Rightarrow> r1\<lparr>RTAudienceScore := Some (int_of_float64 x)\<rparr>
                    | None \<Rightarrow> r1)
          in (case as_bool (jget rtData ''certifiedFresh'') of
                Some b \<Rightarrow> r2\<lparr>RTCertified := b\<rparr>
              | None \<Rightarrow> r2))"

text \<open>
  What \<open>getRTRatings\<close> does with the response. \<open>Inr None\<close> is the return \<open>nil, nil\<close>.
\<close>

definition rt_response :: "string \<Rightarrow> string \<Rightarrow> http_result \<Rightarrow> (error + RatingsResult option) outcome" where
  "rt_response title year resp =
     (case resp of
        TransportError \<Rightarrow> Ret (Inl TransportFailed)
      | Response status body \<Rightarrow>
          if status \<noteq> 200 then Ret (Inl (BadStatus status))
          else (case decode_map body of
                  None \<Rightarrow> Ret (Inl DecodeFailed)
                | Some data \<Rightarrow>
                    (case as_slice (jget data ''hits'') of
                       None \<Rightarrow> Ret (Inr None)
                     | Some hits \<Rightarrow>
                         if length hits = 0 then Ret (Inr None)
                         else (case bestMatch_loop title year None hits of
                                 Panic \<Rightarrow> Panic
                               | Ret None \<Rightarrow> Ret (Inr None)
                               | Ret (Some bestMatch) \<Rightarrow> Ret (Inr (Some (rt_result_of bestMatch)))))))"

definition getRTRatings ::
  "string \<Rightarrow> string \<Rightarrow> string \<Rightarrow> http_result \<Rightarrow> (error + RatingsResult option) outcome \<times> call list" where
  "getRTRatings title year mediaType resp =
     (rt_response title year resp, [CallRT (rt_query title year) (rt_filter mediaType)])"

subsection \<open>GetRatings\<close>

text \<open>
  The one cache of the process holds values of several Go types behind \<open>interface{}\<close>:
  \<open>*RatingsResult\<close>, \<open>string\<close>, \<open>map[int]bool\<close> (a set of identifiers) and
  \<open>map[string]interface{}\<close>.
\<close>

datatype cval =
    VRatings RatingsResult
  | VString string
  | VIDs "int set"
  | VMap jmap

text \<open>
  The database as the services read it: \<open>GetSetting\<close> gives the stored value, or the empty
  string when there is none or the query fails; \<open>db.Query\<close> gives an error or the rows of
  the one selected column, where \<open>None\<close> is a row that \<open>rows.Scan\<close> cannot read into an int.
\<close>

datatype rows = QueryError | Rows "int option list"

record DB =
  settings :: "string \<Rightarrow> string"
  query :: "string \<Rightarrow> rows"

definition GetSetting :: "DB \<Rightarrow> string \<Rightarrow> string" where
  "GetSetting db key = settings db key"

text \<open>
  What the world gives one call of \<open>GetRatings\<close>: the clock reading at the cache read, the
  reply MDBList would give, the reply the Rotten Tomatoes search would give, and the clock
  reading at the cache write.
\<close>

record ratings_env =
  r_get_time :: time
  mdblist_reply :: http_result
  rt_reply :: http_result
  r_set_time :: time

definition ratings_key :: "string \<Rightarrow> string \<Rightarrow> string \<Rightarrow> string" where
  "ratings_key title year mediaType = ''ratings_'' @ title @ ''_'' @ year @ ''_'' @ mediaType"

text \<open>Lines 52 to 61: the result after the MDBList step.\<close>

definition primary_step ::
  "DB \<Rightarrow> ratings_env \<Rightarrow> string \<Rightarrow> string \<Rightarrow> int \<Rightarrow> RatingsResult outcome \<times> call list" where
  "primary_step db env mediaType imdbID tmdbID =
     (let mdblistKey = GetSetting db ''mdblist_api_key''
      in if mdblistKey \<noteq> [] then
           (case getMDBListRatings mdblistKey imdbID tmdbID mediaType (mdblist_reply env) of
              (Panic, calls) \<Rightarrow> (Panic, calls)
            | (Ret (Inr mdbResult), calls) \<Rightarrow> (Ret mdbResult, calls)
            | (Ret (Inl err), calls) \<Rightarrow> (Ret empty_result, calls))
         else (Ret empty_result, []))"

text \<open>Lines 67 to 75: the three assignments from \<open>rtResult\<close>.\<close>

definition merge_rt :: "RatingsResult \<Rightarrow> RatingsResult \<Rightarrow> RatingsResult" where
  "merge_rt result rtResult =
     (let r1 = (if RottenTomatoes result = None
                then result\<lparr>RottenTomatoes := RottenTomatoes rtResult\<rparr> else result);
          r2 = (if RTAudienceScore r1 = None
                then r1\<lparr>RTAudienceScore := RTAudienceScore rtResult\<rparr> else r1)
      in if RTCertified rtResult then r2\<lparr>RTCertified := RTCertified rtResult\<rparr> else r2)"

text \<open>Lines 63 to 77: the fallback to the Rotten Tomatoes search.\<close>

definition secondary_step ::
  "ratings_env \<Rightarrow> string \<Rightarrow> string \<Rightarrow> string \<Rightarrow> RatingsResult \<Rightarrow> RatingsResult outcome \<times> call list" where
  "secondary_step env title year mediaType result =
     (if RottenTomatoes result = None \<and> title \<noteq> [] then
        (case getRTRatings title year mediaType (rt_reply env) of
           (Panic, calls) \<Rightarrow> (Panic, calls)
         | (Ret (Inr (Some rtResult)), calls) \<Rightarrow> (Ret (merge_rt result rtResult), calls)
         | (Ret _, calls) \<Rightarrow> (Ret result, calls))
      else (Ret result, []))"

text \<open>
  \<open>GetRatings\<close> returns the record and the error, the cache after the call and the log of
  the provider calls it made; the unchecked assertion of the cached value to
  \<open>*RatingsResult\<close> panics on a cached value of another type.
\<close>

definition GetRatings ::
  "DB \<Rightarrow> cval Cache \<Rightarrow> ratings_env \<Rightarrow> string \<Rightarrow> string \<Rightarrow> string \<Rightarrow> string \<Rightarrow> int
     \<Rightarrow> ((RatingsResult \<times> error option) \<times> cval Cache \<times> call list) outcome" where
  "GetRatings db c env title year mediaType imdbID tmdbID =
     (let cacheKey = ratings_key title year mediaType
      in case Get c (r_get_time env) cacheKey of
           Some cached \<Rightarrow>
             (case cached of VRatings r \<Rightarrow> Ret ((r, None), c, []) | _ \<Rightarrow> Panic)
         | None \<Rightarrow>
             (case primary_step db env mediaType imdbID tmdbID of
                (Panic, calls1) \<Rightarrow> Panic
              | (Ret result1, calls1) \<Rightarrow>
                  (case secondary_step env title year mediaType result1 of
                     (Panic, calls2) \<Rightarrow> Panic
                   | (Ret result, calls2) \<Rightarrow>
                       Ret ((result, None),
                            Set c (r_set_time env) cacheKey (VRatings result),
                            calls1 @ calls2))))"

text \<open>
  The HTTP handler \<open>Handler.GetRatings\<close> (handlers.go): \<open>tmdbID\<close> is the result of
  \<open>strconv.Atoi\<close> on the query parameter, 0 when it does not parse.
\<close>

datatype http_reply = BadRequest string | JsonEmptyObject | JsonRatings RatingsResult

definition handler_GetRatings ::
  "DB \<Rightarrow> cval Cache \<Rightarrow> ratings_env \<Rightarrow> string \<Rightarrow> string \<Rightarrow> string \<Rightarrow> string \<Rightarrow> int
     \<Rightarrow> (http_reply \<times> cval Cache \<times> call list) outcome" where
  "handler_GetRatings db c env title year mediaType imdbID tmdbID =
     (if title = [] \<and> imdbID = [] \<and> tmdbID = 0 then
        Ret (BadRequest ''Title or ID required'', c, [])
      else (case GetRatings db c env title year mediaType imdbID tmdbID of
              Panic \<Rightarrow> Panic
            | Ret ((ratings, Some err), c', calls) \<Rightarrow> Ret (JsonEmptyObject, c', calls)
            | Ret ((ratings, None), c', calls) \<Rightarrow> Ret (JsonRatings ratings, c', calls)))"

section \<open>The request ledger (package models)\<close>

fun scan_rows :: "int set \<Rightarrow> int option list \<Rightarrow> error + int set" where
  "scan_rows ids [] = Inr ids"
| "scan_rows ids (None # rs) = Inl ScanFailed"
| "scan_rows ids (Some i # rs) = scan_rows (insert i ids) rs"

text \<open>
  \<open>GetRequestedIDs\<close> takes the database and nothing else: it has no access to the cache.
  A \<open>map[int]bool\<close> that only ever receives \<open>true\<close> is the set of its keys.
\<close>

definition requested_series_query :: string where
  "requested_series_query =
     ''SELECT tvdb_id FROM requests WHERE media_type = 'series' AND status IN ('pending', 'approved') AND tvdb_id IS NOT NULL''"

definition requested_movies_query :: string where
  "requested_movies_query =
     ''SELECT tmdb_id FROM requests WHERE media_type = 'movie' AND status IN ('pending', 'approved') AND tmdb_id IS NOT NULL''"

definition GetRequestedIDs :: "DB \<Rightarrow> string \<Rightarrow> (error + int set) \<times> call list" where
  "GetRequestedIDs db mediaType =
     (let q = (if mediaType = ''series'' then requested_series_query else requested_movies_query)
      in (case query db q of
            QueryError \<Rightarrow> Inl QueryFailed
          | Rows rs \<Rightarrow> scan_rows {} rs,
          [CallDB q]))"

section \<open>The discovery service (tmdb.go)\<close>

record MediaItem =
  TmdbID :: int
  TvdbID :: int
  ImdbID :: string
  Title :: string
  Year :: string
  Overview :: string
  Rating :: rat
  VoteCount :: int
  Poster :: string
  Fanart :: string
  Network :: string
  Runtime :: int
  RequestStatus :: string
  Source :: string

text \<open>The zero value of \<open>MediaItem\<close>, which \<open>make([]MediaItem, n)\<close> fills the slice with.\<close>

definition zero_item :: MediaItem where
  "zero_item =
     \<lparr>TmdbID = 0, TvdbID = 0, ImdbID = [], Title = [], Year = [], Overview = [], Rating = 0,
      VoteCount = 0, Poster = [], Fanart = [], Network = [], Runtime = 0,
      RequestStatus = [], Source = []\<rparr>"

definition tmdbImageURL :: string where
  "tmdbImageURL = ''https://image.tmdb.org/t/p''"

definition getString :: "jmap \<Rightarrow> string \<Rightarrow> string" where
  "getString m key = (case as_string (jget m key) of Some v \<Rightarrow> v | None \<Rightarrow> [])"

definition getInt :: "jmap \<Rightarrow> string \<Rightarrow> int" where
  "getInt m key = (case as_float64 (jget m key) of Some v \<Rightarrow> int_of_float64 v | None \<Rightarrow> 0)"

text \<open>
  \<open>request\<close>: no call is made without an API key; the log records the endpoint and the
  parameters of a call that is made.
\<close>

definition request ::
  "DB \<Rightarrow> string \<Rightarrow> (string \<times> string) list \<Rightarrow> http_result \<Rightarrow> (error + jmap) \<times> call list" where
  "request db endpoint params resp =
     (let apiKey = GetSetting db ''tmdb_api_key''
      in if apiKey = [] then (Inl APIKeyNotConfigured, [])
         else ((case resp of
                  TransportError \<Rightarrow> Inl TransportFailed
                | Response status body \<Rightarrow>
                    if status \<noteq> 200 then Inl (BadStatus status)
                    else (case decode_map body of
                            None \<Rightarrow> Inl DecodeFailed
                          | Some result \<Rightarrow> Inr result)),
               [CallTMDB endpoint params]))"

subsection \<open>The existing-library sets\<close>

text \<open>
  What the world gives one call of \<open>getExistingMovieIDs\<close> or \<open>getExistingSeriesIDs\<close>: the
  clock readings at the cache read and at the cache write, the reply of Radarr or Sonarr, and
  which URLs \<open>http.NewRequest\<close> accepts (it returns a nil request and an error for a URL
  that does not parse, one with a space or a control character for instance).
\<close>

record arr_env =
  a_get_time :: time
  accepts_url :: "string \<Rightarrow> bool"
  arr_reply :: http_result
  a_set_time :: time

text \<open>
  Decoding into \<open>[]map[string]interface{}\<close>: an array whose elements are objects or
  \<open>null\<close>, or \<open>null\<close> itself; the status code is not looked at.
\<close>

definition decode_maps :: "http_result \<Rightarrow> error + jmap list" where
  "decode_maps resp =
     (case resp of
        TransportError \<Rightarrow> Inl TransportFailed
      | Response status body \<Rightarrow>
          (case body of
             Some (JArr xs) \<Rightarrow>
               (case those (map (\<lambda>x. case x of JObj m \<Rightarrow> Some m | JNull \<Rightarrow> Some [] | _ \<Rightarrow> None) xs) of
                  None \<Rightarrow> Inl DecodeFailed
                | Some ms \<Rightarrow> Inr ms)
           | Some JNull \<Rightarrow> Inr []
           | _ \<Rightarrow> Inl DecodeFailed))"

definition minute :: time where
  "minute = 60 * 1000000000"

text \<open>The loop that collects the identifiers: an element without a numeric field is skipped.\<close>

definition collect_ids :: "string \<Rightarrow> jmap list \<Rightarrow> int set" where
  "collect_ids field ms =
     set (List.map_filter (\<lambda>m. map_option int_of_float64 (as_float64 (jget m field))) ms)"

text \<open>
  The common body of \<open>getExistingMovieIDs\<close> and \<open>getExistingSeriesIDs\<close>, which differ in
  the two settings, the cache key, the path and the field that holds the identifier. The
  result is the set and the error, of which the callers keep the set. The error of
  \<open>http.NewRequest\<close> is dropped, so for a URL it does not accept \<open>req.Header.Set\<close> runs on
  a nil request and panics.
\<close>

definition getExistingIDs ::
  "string \<Rightarrow> string \<Rightarrow> string \<Rightarrow> string \<Rightarrow> string \<Rightarrow> DB \<Rightarrow> cval Cache \<Rightarrow> arr_env
     \<Rightarrow> ((int set \<times> error option) \<times> cval Cache \<times> call list) outcome" where
  "getExistingIDs urlSetting keySetting cacheKey path field db c env =
     (let arrURL = GetSetting db urlSetting;
          arrKey = GetSetting db keySetting
      in if arrURL = [] \<or> arrKey = [] then Ret (({}, None), c, [])
         else (case Get c (a_get_time env) cacheKey of
                 Some cached \<Rightarrow>
                   (case cached of VIDs ids \<Rightarrow> Ret ((ids, None), c, []) | _ \<Rightarrow> Panic)
               | None \<Rightarrow>
                   if \<not> accepts_url env (arrURL @ path) then Panic
                   else (case decode_maps (arr_reply env) of
                           Inl err \<Rightarrow> Ret (({}, Some err), c, [CallArr (arrURL @ path)])
                         | Inr ms \<Rightarrow>
                             let ids = collect_ids field ms
                             in Ret ((ids, None),
                                     SetWithTTL c (a_set_time env) cacheKey (VIDs ids) (2 * minute),
                                     [CallArr (arrURL @ path)]))))"

definition getExistingMovieIDs ::
  "DB \<Rightarrow> cval Cache \<Rightarrow> arr_env \<Rightarrow> ((int set \<times> error option) \<times> cval Cache \<times> call list) outcome" where
  "getExistingMovieIDs =
     getExistingIDs ''radarr_url'' ''radarr_api_key'' ''existing_movies'' ''/api/v3/movie'' ''tmdbId''"

definition getExistingSeriesIDs ::
  "DB \<Rightarrow> cval Cache \<Rightarrow> arr_env \<Rightarrow> ((int set \<times> error option) \<times> cval Cache \<times> call list) outcome" where
  "getExistingSeriesIDs =
     getExistingIDs ''sonarr_url'' ''sonarr_api_key'' ''existing_series'' ''/api/v3/series'' ''tvdbId''"

subsection \<open>The task of one item\<close>

text \<open>
  What the world gives the goroutine of one item: the clock reading at its cache read, the
  reply its detail request would get, and the clock reading at its cache write.
\<close>

record item_env =
  i_get_time :: time
  detail_reply :: http_result
  i_set_time :: time

definition movie_key :: "int \<Rightarrow> string" where
  "movie_key tmdbID = ''tmdb_movie_'' @ Sprintf_d tmdbID"

definition tv_key :: "int \<Rightarrow> string" where
  "tv_key tmdbID = ''tmdb_tv_'' @ Sprintf_d tmdbID"

text \<open>Lines 150 to 159: the IMDB identifier in the details of a movie.\<close>

definition movie_imdb_id :: "jmap \<Rightarrow> string" where
  "movie_imdb_id details =
     (let imdbID = (case as_map (jget details ''external_ids'') of
                      Some extIDs \<Rightarrow>
                        (case as_string (jget extIDs ''imdb_id'') of Some i \<Rightarrow> i | None \<Rightarrow> [])
                    | None \<Rightarrow> [])
      in if imdbID = [] then (case as_string (jget details ''imdb_id'') of Some i \<Rightarrow> i | None \<Rightarrow> imdbID)
         else imdbID)"

text \<open>Lines 141 to 162: the IMDB identifier of a movie, from the cache or from TMDB.\<close>

definition movie_resolve ::
  "DB \<Rightarrow> cval Cache \<Rightarrow> item_env \<Rightarrow> int \<Rightarrow> (string \<times> cval Cache \<times> call list) outcome" where
  "movie_resolve db c env tmdbID =
     (let cacheKey = movie_key tmdbID
      in case Get c (i_get_time env) cacheKey of
           Some cached \<Rightarrow>
             (case cached of VString s \<Rightarrow> Ret (s, c, []) | _ \<Rightarrow> Panic)
         | None \<Rightarrow>
             (case request db (''movie/'' @ Sprintf_d tmdbID)
                     [(''append_to_response'', ''external_ids'')] (detail_reply env) of
                (Inl err, calls) \<Rightarrow> Ret ([], c, calls)
              | (Inr details, calls) \<Rightarrow>
                  let imdbID = movie_imdb_id details
                  in Ret (imdbID, Set c (i_set_time env) cacheKey (VString imdbID), calls)))"

text \<open>Lines 164 to 169.\<close>

definition movie_status :: "int set \<Rightarrow> int set \<Rightarrow> int \<Rightarrow> string" where
  "movie_status existingIDs requestedIDs tmdbID =
     (if tmdbID \<in> existingIDs then ''exists''
      else if tmdbID \<in> requestedIDs then ''requested''
      else ''available'')"

text \<open>The body of the goroutine of \<open>DiscoverMovies\<close>, up to the write of its slot.\<close>

definition movie_task ::
  "DB \<Rightarrow> int set \<Rightarrow> int set \<Rightarrow> cval Cache \<Rightarrow> item_env \<Rightarrow> jmap
     \<Rightarrow> (MediaItem \<times> cval Cache \<times> call list) outcome" where
  "movie_task db existingIDs requestedIDs c env movie =
     (case as_float64 (jget movie ''id'') of
        None \<Rightarrow> Panic
      | Some idf \<Rightarrow>
          let tmdbID = int_of_float64 idf
          in case movie_resolve db c env tmdbID of
               Panic \<Rightarrow> Panic
             | Ret (imdbID, c', calls) \<Rightarrow>
                 let status = movie_status existingIDs requestedIDs tmdbID;
                     posterPath = (case as_string (jget movie ''poster_path'') of
                                     Some p \<Rightarrow> tmdbImageURL @ ''/w500'' @ p | None \<Rightarrow> []);
                     backdropPath = (case as_string (jget movie ''backdrop_path'') of
                                       Some b \<Rightarrow> tmdbImageURL @ ''/original'' @ b | None \<Rightarrow> []);
                     year = (case as_string (jget movie ''release_date'') of
                               Some rd \<Rightarrow> if 4 \<le> length rd then take 4 rd else []
                             | None \<Rightarrow> []);
                     rating = (case as_float64 (jget movie ''vote_average'') of
                                 Some r \<Rightarrow> r | None \<Rightarrow> 0)
                 in Ret (\<lparr>TmdbID = tmdbID, TvdbID = 0, ImdbID = imdbID,
                          Title = getString movie ''title'', Year = year,
                          Overview = getString movie ''overview'', Rating = rating,
                          VoteCount = getInt movie ''vote_count'', Poster = posterPath,
                          Fanart = backdropPath, Network = [], Runtime = 0,
                          RequestStatus = status, Source = ''tmdb''\<rparr>,
                         c', calls))"

text \<open>Lines 252 to 276: the TVDB and IMDB identifiers of a show.\<close>

definition tv_external_ids :: "jmap \<Rightarrow> int \<times> string" where
  "tv_external_ids details =
     (case as_map (jget details ''external_ids'') of
        Some extIDs \<Rightarrow>
          (case as_float64 (jget extIDs ''tvdb_id'') of Some i \<Rightarrow> int_of_float64 i | None \<Rightarrow> 0,
           case as_string (jget extIDs ''imdb_id'') of Some i \<Rightarrow> i | None \<Rightarrow> [])
      | None \<Rightarrow> (0, []))"

definition tv_resolve ::
  "DB \<Rightarrow> cval Cache \<Rightarrow> item_env \<Rightarrow> int \<Rightarrow> ((int \<times> string) \<times> cval Cache \<times> call list) outcome" where
  "tv_resolve db c env tmdbID =
     (let cacheKey = tv_key tmdbID
      in case Get c (i_get_time env) cacheKey of
           Some cached \<Rightarrow>
             (case cached of
                VMap ids \<Rightarrow>
                  (case as_float64 (jget ids ''tvdb'') of
                     None \<Rightarrow> Panic
                   | Some x \<Rightarrow>
                       Ret ((int_of_float64 x,
                             case as_string (jget ids ''imdb'') of Some s \<Rightarrow> s | None \<Rightarrow> []),
                            c, []))
              | _ \<Rightarrow> Ret ((0, []), c, []))
         | None \<Rightarrow>
             (case request db (''tv/'' @ Sprintf_d tmdbID)
                     [(''append_to_response'', ''external_ids'')] (detail_reply env) of
                (Inl err, calls) \<Rightarrow> Ret ((0, []), c, calls)
              | (Inr details, calls) \<Rightarrow>
                  let (tvdbID, imdbID) = tv_external_ids details
                  in Ret ((tvdbID, imdbID),
                          Set c (i_set_time env) cacheKey
                            (VMap [(''tvdb'', JNum (of_int tvdbID)), (''imdb'', JStr imdbID)]),
                          calls)))"

text \<open>Lines 278 to 283.\<close>

definition tv_status :: "int set \<Rightarrow> int set \<Rightarrow> int \<Rightarrow> string" where
  "tv_status existingIDs requestedIDs tvdbID =
     (if 0 < tvdbID \<and> tvdbID \<in> existingIDs then ''exists''
      else if 0 < tvdbID \<and> tvdbID \<in> requestedIDs then ''requested''
      else ''available'')"

definition tv_task ::
  "DB \<Rightarrow> int set \<Rightarrow> int set \<Rightarrow> cval Cache \<Rightarrow> item_env \<Rightarrow> jmap
     \<Rightarrow> (MediaItem \<times> cval Cache \<times> call list) outcome" where
  "tv_task db existingIDs requestedIDs c env show =
     (case as_float64 (jget show ''id'') of
        None \<Rightarrow> Panic
      | Some idf \<Rightarrow>
          let tmdbID = int_of_float64 idf
          in case tv_resolve db c env tmdbID of
               Panic \<Rightarrow> Panic
             | Ret ((tvdbID, imdbID), c', calls) \<Rightarrow>
                 let status = tv_status existingIDs requestedIDs tvdbID;
                     posterPath = (case as_string (jget show ''poster_path'') of
                                     Some p \<Rightarrow> tmdbImageURL @ ''/w500'' @ p | None \<Rightarrow> []);
                     backdropPath = (case as_string (jget show ''backdrop_path'') of
                                       Some b \<Rightarrow> tmdbImageURL @ ''/original'' @ b | None \<Rightarrow> []);
                     year = (case as_string (jget show ''first_air_date'') of
                               Some rd \<Rightarrow> if 4 \<le> length rd then take 4 rd else []
                             | None \<Rightarrow> []);
                     rating = (case as_float64 (jget show ''vote_average'') of
                                 Some r \<Rightarrow> r | None \<Rightarrow> 0)
                 in Ret (\<lparr>TmdbID = tmdbID, TvdbID = tvdbID, ImdbID = imdbID,
                          Title = getString show ''name'', Year = year,
                          Overview = getString show ''overview'', Rating = rating,
                          VoteCount = getInt show ''vote_count'', Poster = posterPath,
                          Fanart = backdropPath, Network = [], Runtime = 0,
                          RequestStatus = status, Source = ''tmdb''\<rparr>,
                         c', calls))"

subsection \<open>The fan-out and the join\<close>

text \<open>
  The goroutines share the cache and nothing else, and each writes the slot of its own
  index. A run of the fan-out is the order in which the tasks take their turn (the schedule,
  a list of indices); the task of index \<open>idx\<close> works on the cache the earlier tasks left
  and writes \<open>items[idx]\<close>. The tasks of items with different identifiers read and write
  different keys, so every interleaving of their cache operations gives what some order of
  the whole tasks gives. A panic in a goroutine ends the process. \<open>wg.Wait()\<close> returns
  when the schedule is exhausted.
\<close>

fun run_tasks ::
  "(cval Cache \<Rightarrow> item_env \<Rightarrow> jmap \<Rightarrow> (MediaItem \<times> cval Cache \<times> call list) outcome)
     \<Rightarrow> (nat \<Rightarrow> item_env) \<Rightarrow> jmap list \<Rightarrow> nat list \<Rightarrow> MediaItem list \<Rightarrow> cval Cache \<Rightarrow> call list
     \<Rightarrow> (MediaItem list \<times> cval Cache \<times> call list) outcome" where
  "run_tasks task envs raws [] slots c calls = Ret (slots, c, calls)"
| "run_tasks task envs raws (idx # sched) slots c calls =
     (if idx < length raws \<and> idx < length slots then
        (case task c (envs idx) (raws ! idx) of
           Panic \<Rightarrow> Panic
         | Ret (it, c', calls') \<Rightarrow>
             run_tasks task envs raws sched (slots[idx := it]) c' (calls @ calls'))
      else Panic)"

text \<open>
  What the world gives one call of \<open>DiscoverMovies\<close> or \<open>DiscoverTV\<close>: the reply to the
  discover request, the environment of the existing-library fetch, the environment of each
  item's task, and the schedule of the tasks.
\<close>

record discover_env =
  discover_reply :: http_result
  existing_env :: arr_env
  task_env :: "nat \<Rightarrow> item_env"
  schedule :: "nat list"

definition movie_params :: "int \<Rightarrow> string \<Rightarrow> string \<Rightarrow> (string \<times> string) list" where
  "movie_params page sortBy year =
     [(''page'', Sprintf_d page), (''sort_by'', sortBy), (''include_adult'', ''false''),
      (''include_video'', ''false''), (''with_original_language'', ''en''), (''region'', ''US''),
      (''vote_count.gte'', if sortBy = ''vote_average.desc'' then ''500'' else ''100'')]
     @ (if year \<noteq> [] then [(''primary_release_year'', year)] else [])"

definition tv_params :: "int \<Rightarrow> string \<Rightarrow> string \<Rightarrow> (string \<times> string) list" where
  "tv_params page sortBy year =
     [(''page'', Sprintf_d page), (''sort_by'', sortBy),
      (''include_null_first_air_dates'', ''false''), (''with_original_language'', ''en''),
      (''vote_count.gte'', if sortBy = ''vote_average.desc'' then ''200'' else ''50'')]
     @ (if year \<noteq> [] then [(''first_air_date_year'', year)] else [])"

text \<open>
  The common body of \<open>DiscoverMovies\<close> and \<open>DiscoverTV\<close> after the discover request has
  succeeded with \<open>data\<close>. The argument of each goroutine, \<open>r.(map[string]interface{})\<close>, is
  asserted when the goroutine is started.
\<close>

definition enrich_page ::
  "(DB \<Rightarrow> cval Cache \<Rightarrow> arr_env \<Rightarrow> ((int set \<times> error option) \<times> cval Cache \<times> call list) outcome)
     \<Rightarrow> string
     \<Rightarrow> (DB \<Rightarrow> int set \<Rightarrow> int set \<Rightarrow> cval Cache \<Rightarrow> item_env \<Rightarrow> jmap
           \<Rightarrow> (MediaItem \<times> cval Cache \<times> call list) outcome)
     \<Rightarrow> DB \<Rightarrow> cval Cache \<Rightarrow> discover_env \<Rightarrow> jmap
     \<Rightarrow> ((MediaItem list \<times> int) \<times> cval Cache \<times> call list) outcome" where
  "enrich_page getExisting mediaType task db c env data =
     (let results = (case as_slice (jget data ''results'') of Some rs \<Rightarrow> rs | None \<Rightarrow> [])
      in case as_float64 (jget data ''total_pages'') of
           None \<Rightarrow> Panic
         | Some tp \<Rightarrow>
             let totalPages = (if 500 < int_of_float64 tp then 500 else int_of_float64 tp)
             in case getExisting db c (existing_env env) of
                  Panic \<Rightarrow> Panic
                | Ret ((existingIDs, err1), c1, calls1) \<Rightarrow>
                    (case GetRequestedIDs db mediaType of
                       (requested, calls2) \<Rightarrow>
                         let requestedIDs = (case requested of Inr ids \<Rightarrow> ids | Inl err2 \<Rightarrow> {})
                         in case those (map as_map results) of
                              None \<Rightarrow> Panic
                            | Some raws \<Rightarrow>
                                (case run_tasks (task db existingIDs requestedIDs) (task_env env)
                                        raws (schedule env)
                                        (replicate (length results) zero_item) c1 [] of
                                   Panic \<Rightarrow> Panic
                                 | Ret (slots, c2, calls3) \<Rightarrow>
                                     Ret ((slots, totalPages), c2, calls1 @ calls2 @ calls3))))"

definition DiscoverMovies ::
  "DB \<Rightarrow> cval Cache \<Rightarrow> discover_env \<Rightarrow> int \<Rightarrow> string \<Rightarrow> string
     \<Rightarrow> ((error + MediaItem list \<times> int) \<times> cval Cache \<times> call list) outcome" where
  "DiscoverMovies db c env page sortBy year =
     (case request db ''discover/movie'' (movie_params page sortBy year) (discover_reply env) of
        (Inl err, calls0) \<Rightarrow> Ret (Inl err, c, calls0)
      | (Inr data, calls0) \<Rightarrow>
          (case enrich_page getExistingMovieIDs ''movie'' movie_task db c env data of
             Panic \<Rightarrow> Panic
           | Ret (page_items, c', calls) \<Rightarrow> Ret (Inr page_items, c', calls0 @ calls)))"

definition DiscoverTV ::
  "DB \<Rightarrow> cval Cache \<Rightarrow> discover_env \<Rightarrow> int \<Rightarrow> string \<Rightarrow> string
     \<Rightarrow> ((error + MediaItem list \<times> int) \<times> cval Cache \<times> call list) outcome" where
  "DiscoverTV db c env page sortBy year =
     (case request db ''discover/tv'' (tv_params page sortBy year) (discover_reply env) of
        (Inl err, calls0) \<Rightarrow> Ret (Inl err, c, calls0)
      | (Inr data, calls0) \<Rightarrow>
          (case enrich_page getExistingSeriesIDs ''series'' tv_task db c env data of
             Panic \<Rightarrow> Panic
           | Ret (page_items, c', calls) \<Rightarrow> Ret (Inr page_items, c', calls0 @ calls)))"

text \<open>\<open>main\<close> creates the one cache of the process with a default TTL of ten minutes.\<close>

definition appCache :: "cval Cache" where
  "appCache = NewCache (10 * minute)"

section \<open>Notions used to state the properties\<close>



text \<open>
  The Go type each service stores under its keys: \<open>GetRatings\<close> stores a \<open>*RatingsResult\<close>
  under \<open>ratings_...\<close>, the movie task a \<open>string\<close> under \<open>tmdb_movie_...\<close>, the show task a
  map with a numeric \<open>tvdb\<close> under \<open>tmdb_tv_...\<close>, the existing-library fetches a
  \<open>map[int]bool\<close> under \<open>existing_movies\<close> and \<open>existing_series\<close>. A cache is well typed
  when every entry holds a value of the type of its key; the unchecked assertions on cached
  values do not panic on such a cache. The empty cache is well typed and the services keep a
  well-typed cache well typed (lemmas \<open>cache_typed_NewCache\<close>, \<open>cache_typed_cleanup\<close>,
  \<open>GetRatings_typed\<close>, \<open>DiscoverMovies_typed\<close>, \<open>DiscoverTV_typed\<close>).
\<close>

definition value_fits :: "string \<Rightarrow> cval \<Rightarrow> bool" where
  "value_fits key v =
     (if take 8 key = ''ratings_'' then (case v of VRatings r \<Rightarrow> True | _ \<Rightarrow> False)
      else if take 11 key = ''tmdb_movie_'' then (case v of VString s \<Rightarrow> True | _ \<Rightarrow> False)
      else if take 8 key = ''tmdb_tv_'' then
        (case v of VMap ids \<Rightarrow> as_float64 (jget ids ''tvdb'') \<noteq> None | _ \<Rightarrow> False)
      else if key = ''existing_movies'' \<or> key = ''existing_series'' then
        (case v of VIDs ids \<Rightarrow> True | _ \<Rightarrow> False)
      else True)"

definition cache_typed :: "cval Cache \<Rightarrow> bool" where
  "cache_typed c = (\<forall>key it. items c key = Some it \<longrightarrow> value_fits key (item_value it))"



definition page_of ::
  "((error + MediaItem list \<times> int) \<times> cval Cache \<times> call list) outcome \<Rightarrow> MediaItem list" where
  "page_of out = (case out of Ret (Inr (its, n), c, calls) \<Rightarrow> its | _ \<Rightarrow> [])"

definition cache_after :: "cval Cache \<Rightarrow> ('a \<times> cval Cache \<times> call list) outcome \<Rightarrow> cval Cache" where
  "cache_after c out = (case out of Ret (x, c', calls) \<Rightarrow> c' | Panic \<Rightarrow> c)"

definition calls_of :: "('a \<times> cval Cache \<times> call list) outcome \<Rightarrow> call list" where
  "calls_of out = (case out of Ret (x, c, calls) \<Rightarrow> calls | Panic \<Rightarrow> [])"

fun is_db_call :: "call \<Rightarrow> bool" where
  "is_db_call (CallDB q) = True"
| "is_db_call _ = False"

fun is_arr_call :: "call \<Rightarrow> bool" where
  "is_arr_call (CallArr u) = True"
| "is_arr_call _ = False"






section \<open>Example inputs\<close>

text \<open>A database whose only setting is the MDBList API key, with an empty request ledger.\<close>

definition db_mdblist :: DB where
  "db_mdblist =
     \<lparr>settings = (\<lambda>key. if key = ''mdblist_api_key'' then ''key'' else []),
      query = (\<lambda>q. Rows [])\<rparr>"

text \<open>
  MDBList answers with a critics score of 80; the Rotten Tomatoes search would answer with one
  hit of the same title and a critics score of 60.
\<close>

definition env_80_60 :: ratings_env where
  "env_80_60 =
     \<lparr>r_get_time = 0,
      mdblist_reply = Response 200 (Some (JObj
        [(''ratings'', JArr [JObj [(''source'', JStr ''tomatoes''), (''value'', JNum 80)]])])),
      rt_reply = Response 200 (Some (JObj
        [(''hits'', JArr [JObj [(''title'', JStr ''T''),
                               (''rottenTomatoes'', JObj [(''criticsScore'', JNum 60)])]])])),
      r_set_time = 1\<rparr>"

text \<open>Both providers are unreachable.\<close>

definition env_down :: ratings_env where
  "env_down =
     \<lparr>r_get_time = 0, mdblist_reply = TransportError, rt_reply = TransportError, r_set_time = 1\<rparr>"

text \<open>MDBList answers with status 200 and a ratings array whose one element is a number.\<close>

definition env_bad_rating :: ratings_env where
  "env_bad_rating =
     \<lparr>r_get_time = 0,
      mdblist_reply = Response 200 (Some (JObj [(''ratings'', JArr [JNum 1])])),
      rt_reply = TransportError,
      r_set_time = 1\<rparr>"

text \<open>
  A database whose only setting is the TMDB API key (so that Radarr is not configured), with
  a ledger in which movie 2 is requested; and the same with an empty ledger.
\<close>

definition db_tmdb :: DB where
  "db_tmdb =
     \<lparr>settings = (\<lambda>key. if key = ''tmdb_api_key'' then ''key'' else []),
      query = (\<lambda>q. Rows [Some 2])\<rparr>"

definition db_tmdb_no_requests :: DB where
  "db_tmdb_no_requests = db_tmdb\<lparr>query := (\<lambda>q. Rows [])\<rparr>"

text \<open>
  A page of two raw results, movies 1 and 2. The detail request of the first item fails, the
  one of the second item gives the IMDB identifier tt2, and the task of the second item takes
  its turn before the task of the first.
\<close>

definition page_raws :: "jmap list" where
  "page_raws = [[(''id'', JNum 1), (''title'', JStr ''A'')], [(''id'', JNum 2), (''title'', JStr ''B'')]]"

definition page_data :: jmap where
  "page_data = [(''results'', JArr (map JObj page_raws)), (''total_pages'', JNum 1)]"

definition env_page :: discover_env where
  "env_page =
     \<lparr>discover_reply = Response 200 (Some (JObj page_data)),
      existing_env = \<lparr>a_get_time = 0, accepts_url = (\<lambda>u. True), arr_reply = TransportError,
                      a_set_time = 0\<rparr>,
      task_env = (\<lambda>i. if i = 0
                       then \<lparr>i_get_time = 1, detail_reply = TransportError, i_set_time = 2\<rparr>
                       else \<lparr>i_get_time = 1,
                             detail_reply = Response 200 (Some (JObj [(''imdb_id'', JStr ''tt2'')])),
                             i_set_time = 2\<rparr>),
      schedule = [1, 0]\<rparr>"

text \<open>
  The environments of one item: TMDB unreachable; TMDB answering with details that hold no
  external identifier; TMDB answering with the TVDB identifier 5.
\<close>

definition item_env_down :: item_env where
  "item_env_down = \<lparr>i_get_time = 1, detail_reply = TransportError, i_set_time = 2\<rparr>"

definition item_env_no_ids :: item_env where
  "item_env_no_ids = \<lparr>i_get_time = 1, detail_reply = Response 200 (Some (JObj [])), i_set_time = 2\<rparr>"

definition item_env_tvdb_5 :: item_env where
  "item_env_tvdb_5 =
     \<lparr>i_get_time = 1,
      detail_reply = Response 200 (Some (JObj [(''external_ids'', JObj [(''tvdb_id'', JNum 5)])])),
      i_set_time = 2\<rparr>"

text \<open>
  Radarr configured and answering with the movies 1 and 2; the URL of the listing is one
  that \<open>http.NewRequest\<close> accepts.
\<close>

definition db_radarr :: DB where
  "db_radarr =
     \<lparr>settings = (\<lambda>key. if key = ''radarr_url'' then ''http://radarr''
                        else if key = ''radarr_api_key'' then ''key'' else []),
      query = (\<lambda>q. Rows [])\<rparr>"

definition arr_env_two_movies :: arr_env where
  "arr_env_two_movies =
     \<lparr>a_get_time = 0,
      accepts_url = (\<lambda>u. u = ''http://radarr/api/v3/movie''),
      arr_reply = Response 200 (Some (JArr [JObj [(''tmdbId'', JNum 1)], JObj [(''tmdbId'', JNum 2)]])),
      a_set_time = 0\<rparr>"

text \<open>Radarr configured with a URL that ends in a space, which \<open>http.NewRequest\<close> refuses.\<close>

definition db_radarr_bad_url :: DB where
  "db_radarr_bad_url =
     \<lparr>settings = (\<lambda>key. if key = ''radarr_url'' then ''http://radarr:7878 ''
                        else if key = ''radarr_api_key'' then ''key'' else []),
      query = (\<lambda>q. Rows [])\<rparr>"

section \<open>Properties of the cache\<close>

lemma Get_Set_same:
  "Get (Set c now key v) t key = (if t \<le> now + ttl c then Some v else None)"
  by (simp add: Get_def Set_def)

lemma Get_Set_other:
  "key' \<noteq> key \<Longrightarrow> Get (Set c now key v) t key' = Get c t key'"
  by (simp add: Get_def Set_def)

lemma Get_SetWithTTL_same:
  "Get (SetWithTTL c now key v d) t key = (if t \<le> now + d then Some v else None)"
  by (simp add: Get_def SetWithTTL_def)

lemma Get_SetWithTTL_other:
  "key' \<noteq> key \<Longrightarrow> Get (SetWithTTL c now key v d) t key' = Get c t key'"
  by (simp add: Get_def SetWithTTL_def)

lemma swept_refl: "swept now c c"
  by (simp add: swept_def)

lemma swept_Get: "swept now c1 c2 \<Longrightarrow> Get c1 now key = Get c2 now key"
proof -
  assume "swept now c1 c2"
  then have "items c1 key = items c2 key
             \<or> (items c1 key = None \<and> (\<exists>it. items c2 key = Some it \<and> expiration it < now))"
    unfolding swept_def by blast
  then show ?thesis by (auto simp: Get_def)
qed

lemma swept_step:
  assumes "swept now c1 c2" and "sweep_by now op"
  shows "swept now (apply_op c1 op) (if is_sweep op then c2 else apply_op c2 op)"
proof (cases op)
  case (DoSet t key v)
  with assms(1) show ?thesis by (auto simp: swept_def Set_def)
next
  case (DoSetWithTTL t key v d)
  with assms(1) show ?thesis by (auto simp: swept_def SetWithTTL_def)
next
  case (DoDelete key)
  with assms(1) show ?thesis by (auto simp: swept_def Delete_def)
next
  case (DoSweep t)
  have "items (cleanup c1 t) key = items c2 key
          \<or> (items (cleanup c1 t) key = None \<and> (\<exists>it. items c2 key = Some it \<and> expiration it < now))" for key
  proof -
    from assms(1) have "items c1 key = items c2 key
             \<or> (items c1 key = None \<and> (\<exists>it. items c2 key = Some it \<and> expiration it < now))"
      unfolding swept_def by blast
    with assms(2) DoSweep show ?thesis
      by (cases "items c2 key") (auto simp: cleanup_def split: if_splits)
  qed
  moreover from assms(1) have "ttl (cleanup c1 t) = ttl c2"
    by (simp add: swept_def cleanup_def)
  ultimately show ?thesis using DoSweep by (simp add: swept_def)
qed

lemma swept_run:
  "swept now c1 c2 \<Longrightarrow> list_all (sweep_by now) ops \<Longrightarrow>
     swept now (foldl apply_op c1 ops) (foldl apply_op c2 (filter (\<lambda>op. \<not> is_sweep op) ops))"
proof (induction ops arbitrary: c1 c2)
  case Nil
  then show ?case by simp
next
  case (Cons op ops)
  from Cons.prems have "swept now (apply_op c1 op) (if is_sweep op then c2 else apply_op c2 op)"
    by (intro swept_step) simp_all
  from Cons.IH[OF this] Cons.prems(2) show ?case by (cases "is_sweep op") simp_all
qed

lemma sweeps_unobservable:
  "list_all (sweep_by now) ops \<Longrightarrow>
     Get (run_ops c ops) now key = Get (run_ops c (filter (\<lambda>op. \<not> is_sweep op) ops)) now key"
  unfolding run_ops_def by (intro swept_Get swept_run swept_refl)

text \<open>
  Claim C2. \<open>Get\<close> reports a key as not found exactly when the store has no entry for it
  or the entry's expiration instant lies strictly before the instant of the read. A sweep
  that ran at an instant \<open>t\<close> no later than the read leaves the result of the read as it
  would have been without the sweep, for every key; and in any history of writes, deletions
  and sweeps, a read that follows the history returns what it would return after the same
  history with all sweeps left out.
\<close>

theorem Get_lazy_expiry_sweep_independent:
  "((Get c now key = None) =
      (items c key = None \<or> (\<exists>it. items c key = Some it \<and> expiration it < now)))
   \<and> (t \<le> now \<longrightarrow> Get (cleanup c t) now key = Get c now key)
   \<and> (list_all (sweep_by now) ops \<longrightarrow>
        Get (run_ops c ops) now key
          = Get (run_ops c (filter (\<lambda>op. \<not> is_sweep op) ops)) now key)"
proof -
  have lazy: "(Get c now key = None) =
      (items c key = None \<or> (\<exists>it. items c key = Some it \<and> expiration it < now))"
    by (auto simp: Get_def split: option.splits)
  have one: "t \<le> now \<longrightarrow> Get (cleanup c t) now key = Get c now key"
    by (auto simp: Get_def cleanup_def split: option.splits)
  from lazy one sweeps_unobservable[of now ops c key] show ?thesis
    by blast
qed

theorem Get_lazy_expiry_sweep_independent_witness:
  "(5::int) \<le> 7
   \<and> Get (cleanup (SetWithTTL (NewCache 100) 0 ''k'' (1::nat) 3) 5) 7 ''k'' = None
   \<and> Get (SetWithTTL (NewCache 100) 0 ''k'' (1::nat) 3) 7 ''k'' = None
   \<and> Get (cleanup (SetWithTTL (NewCache 100) 0 ''k'' (1::nat) 9) 5) 7 ''k'' = Some 1
   \<and> list_all (sweep_by 7) [DoSetWithTTL 0 ''k'' (1::nat) 3, DoSweep 5, DoSet 6 ''j'' 2]
   \<and> Get (run_ops (NewCache 100) [DoSetWithTTL 0 ''k'' (1::nat) 3, DoSweep 5, DoSet 6 ''j'' 2]) 7 ''j''
       = Get (run_ops (NewCache 100) [DoSetWithTTL 0 ''k'' (1::nat) 3, DoSet 6 ''j'' 2]) 7 ''j''
   \<and> Get (run_ops (NewCache 100) [DoSetWithTTL 0 ''k'' (1::nat) 3, DoSet 6 ''j'' 2]) 7 ''j'' = Some 2"
proof -
  have hist: "list_all (sweep_by 7) [DoSetWithTTL 0 ''k'' (1::nat) 3, DoSweep 5, DoSet 6 ''j'' 2]"
    by simp
  have val: "Get (run_ops (NewCache 100) [DoSetWithTTL 0 ''k'' (1::nat) 3, DoSet 6 ''j'' 2]) 7 ''j'' = Some 2"
    by (simp add: run_ops_def Get_Set_same NewCache_def SetWithTTL_def)
  from hist val
       Get_lazy_expiry_sweep_independent
          [of "SetWithTTL (NewCache 100) 0 ''k'' (1::nat) 3" 7 "''k''" 5 "[]"]
       Get_lazy_expiry_sweep_independent
          [of "SetWithTTL (NewCache 100) 0 ''k'' (1::nat) 9" 7 "''k''" 5 "[]"]
       Get_lazy_expiry_sweep_independent
          [of "NewCache 100" 7 "''j''" 5 "[DoSetWithTTL 0 ''k'' (1::nat) 3, DoSweep 5, DoSet 6 ''j'' 2]"]
  show ?thesis by (simp add: Get_SetWithTTL_same)
qed

text \<open>
  Claim C9. The comparison with the expiration instant is strict. For an entry stored under
  \<open>key\<close> with expiration instant \<open>E\<close>, a read at \<open>t\<close> returns the stored value when
  \<open>t \<le> E\<close>, \<open>t = E\<close> included, and reports the key absent when \<open>E < t\<close>; a sweep at \<open>t\<close>
  keeps the entry when \<open>t \<le> E\<close> and removes it when \<open>E < t\<close>. \<open>Set\<close> stores the instant
  \<open>now + ttl\<close>, so the entry is still served at exactly \<open>now + ttl\<close>.
\<close>

theorem expiry_boundary_strict:
  "Get (c\<lparr>items := (items c)(key \<mapsto> \<lparr>item_value = v, expiration = E\<rparr>)\<rparr>) t key
     = (if t \<le> E then Some v else None)
   \<and> Get (c\<lparr>items := (items c)(key \<mapsto> \<lparr>item_value = v, expiration = E\<rparr>)\<rparr>) E key = Some v
   \<and> items (cleanup (c\<lparr>items := (items c)(key \<mapsto> \<lparr>item_value = v, expiration = E\<rparr>)\<rparr>) t) key
     = (if t \<le> E then Some \<lparr>item_value = v, expiration = E\<rparr> else None)
   \<and> items (Set c now key v) key = Some \<lparr>item_value = v, expiration = now + ttl c\<rparr>
   \<and> Get (Set c now key v) (now + ttl c) key = Some v
   \<and> Get (Set c now key v) (now + ttl c + 1) key = None"
  by (simp add: Get_def cleanup_def Set_def)

section \<open>Properties of the fallback matcher\<close>

lemma Sprintf_f_2001: "Sprintf_f 0 2001 = ''2001''"
  by (simp add: Sprintf_f_def round_half_even_def decimal.simps digit_char_def)

lemma Sprintf_f_1999: "Sprintf_f 0 1999 = ''1999''"
  by (simp add: Sprintf_f_def round_half_even_def decimal.simps digit_char_def)

lemma bestMatch_loop_Some:
  "bestMatch_loop title year (Some b) (map JObj cands) =
     Ret (case find (exact_match title year) cands of Some c \<Rightarrow> Some c | None \<Rightarrow> Some b)"
  by (induction cands) (auto simp: exact_match_def Let_def)

lemma bestMatch_loop_None:
  "bestMatch_loop title year None (map JObj cands) =
     Ret (case find (exact_match title year) cands of
            Some c \<Rightarrow> Some c
          | None \<Rightarrow> (case cands of [] \<Rightarrow> None | c # _ \<Rightarrow> Some c))"
  by (cases cands) (auto simp: exact_match_def Let_def bestMatch_loop_Some split: option.splits)

lemma bestMatch_loop_break:
  "\<not> list_ex (exact_match title year) pre \<Longrightarrow> exact_match title year c \<Longrightarrow>
     bestMatch_loop title year b (map JObj pre @ JObj c # rest) = Ret (Some c)"
  by (induction pre arbitrary: b) (auto simp: exact_match_def Let_def)

text \<open>
  Claim C1. The matcher is one scan from the left over the candidates (the decoded hits,
  each a JSON object). An exact match is a candidate whose title is the target title while
  the target year is not empty and the candidate's year is present and prints as the target
  year. The scan returns the first exact match and stops there: whatever follows it in the
  list is not looked at. When no candidate is an exact match the scan returns the first
  candidate of the list, whether or not its title is the target title, and it returns no
  match only for the empty list. For the candidates (Foo, 2001), (Foo, 1999) and the target
  (Foo, 1999) the candidate at index 1 is chosen; for the candidates (Bar, no year),
  (Foo, no year) and the target (Foo, no year) the candidate at index 0 is chosen.
\<close>

theorem fallback_matcher_single_scan:
  "bestMatch_loop title year None (map JObj cands) =
     Ret (case find (exact_match title year) cands of
            Some c \<Rightarrow> Some c
          | None \<Rightarrow> (case cands of [] \<Rightarrow> None | c # _ \<Rightarrow> Some c))
   \<and> (\<not> list_ex (exact_match title year) pre \<and> exact_match title year c \<longrightarrow>
        bestMatch_loop title year None (map JObj pre @ JObj c # rest) = Ret (Some c))
   \<and> ((bestMatch_loop title year None (map JObj cands) = Ret None) = (cands = []))
   \<and> bestMatch_loop ''Foo'' ''1999'' None
         (map JObj [[(''title'', JStr ''Foo''), (''releaseYear'', JNum 2001)],
                    [(''title'', JStr ''Foo''), (''releaseYear'', JNum 1999)]])
       = Ret (Some ([[(''title'', JStr ''Foo''), (''releaseYear'', JNum 2001)],
                     [(''title'', JStr ''Foo''), (''releaseYear'', JNum 1999)]] ! 1))
   \<and> bestMatch_loop ''Foo'' [] None
         (map JObj [[(''title'', JStr ''Bar'')], [(''title'', JStr ''Foo'')]])
       = Ret (Some ([[(''title'', JStr ''Bar'')], [(''title'', JStr ''Foo'')]] ! 0))"
proof -
  have general: "bestMatch_loop title year None (map JObj cands) =
     Ret (case find (exact_match title year) cands of
            Some c \<Rightarrow> Some c
          | None \<Rightarrow> (case cands of [] \<Rightarrow> None | c # _ \<Rightarrow> Some c))"
    by (rule bestMatch_loop_None)
  have stops: "\<not> list_ex (exact_match title year) pre \<and> exact_match title year c \<longrightarrow>
        bestMatch_loop title year None (map JObj pre @ JObj c # rest) = Ret (Some c)"
    by (simp add: bestMatch_loop_break)
  have empty_only: "(bestMatch_loop title year None (map JObj cands) = Ret None) = (cands = [])"
    unfolding general by (cases cands) (simp_all split: option.splits)
  have first_example: "bestMatch_loop ''Foo'' ''1999'' None
         (map JObj [[(''title'', JStr ''Foo''), (''releaseYear'', JNum 2001)],
                    [(''title'', JStr ''Foo''), (''releaseYear'', JNum 1999)]])
       = Ret (Some ([[(''title'', JStr ''Foo''), (''releaseYear'', JNum 2001)],
                     [(''title'', JStr ''Foo''), (''releaseYear'', JNum 1999)]] ! 1))"
    by (simp add: hit_title_def hit_year_def jget_def Sprintf_f_2001 Sprintf_f_1999)
  have second_example: "bestMatch_loop ''Foo'' [] None
         (map JObj [[(''title'', JStr ''Bar'')], [(''title'', JStr ''Foo'')]])
       = Ret (Some ([[(''title'', JStr ''Bar'')], [(''title'', JStr ''Foo'')]] ! 0))"
    by (simp add: hit_title_def hit_year_def jget_def)
  from general stops empty_only first_example second_example show ?thesis
    by blast
qed

theorem fallback_matcher_single_scan_witness:
  "\<not> list_ex (exact_match ''Foo'' ''1999'') [[(''title'', JStr ''Foo''), (''releaseYear'', JNum 2001)]]
   \<and> exact_match ''Foo'' ''1999'' [(''title'', JStr ''Foo''), (''releaseYear'', JNum 1999)]
   \<and> bestMatch_loop ''Foo'' ''1999'' None
         [JObj [(''title'', JStr ''Foo''), (''releaseYear'', JNum 2001)],
          JObj [(''title'', JStr ''Foo''), (''releaseYear'', JNum 1999)],
          JNull]
       = Ret (Some [(''title'', JStr ''Foo''), (''releaseYear'', JNum 1999)])"
proof -
  have a: "\<not> list_ex (exact_match ''Foo'' ''1999'') [[(''title'', JStr ''Foo''), (''releaseYear'', JNum 2001)]]"
    by (simp add: exact_match_def hit_title_def hit_year_def jget_def Sprintf_f_2001)
  have b: "exact_match ''Foo'' ''1999'' [(''title'', JStr ''Foo''), (''releaseYear'', JNum 1999)]"
    by (simp add: exact_match_def hit_title_def hit_year_def jget_def Sprintf_f_1999)
  from a b fallback_matcher_single_scan
         [of "''Foo''" "''1999''" "[]" "[[(''title'', JStr ''Foo''), (''releaseYear'', JNum 2001)]]"
             "[(''title'', JStr ''Foo''), (''releaseYear'', JNum 1999)]" "[JNull]"]
  show ?thesis by simp
qed

section \<open>Properties of the rating aggregator\<close>

lemmas ratings_eval =
  Let_def GetRatings_def Get_def NewCache_def primary_step_def secondary_step_def GetSetting_def
  getMDBListRatings_def mdblist_params_def mdblist_response_def decode_map_def jget_def
  mdb_rating_def int_of_float64_def min_int_def max_int_def getRTRatings_def rt_response_def

lemma merge_rt_fields:
  "RottenTomatoes (merge_rt result rtResult) =
      (case RottenTomatoes result of Some v \<Rightarrow> Some v | None \<Rightarrow> RottenTomatoes rtResult)"
  "RTAudienceScore (merge_rt result rtResult) =
      (case RTAudienceScore result of Some v \<Rightarrow> Some v | None \<Rightarrow> RTAudienceScore rtResult)"
  "RTCertified (merge_rt result rtResult) = (RTCertified result \<or> RTCertified rtResult)"
  "IMDB (merge_rt result rtResult) = IMDB result"
  "Metacritic (merge_rt result rtResult) = Metacritic result"
  by (auto simp: merge_rt_def Let_def split: option.splits)

lemma secondary_step_calls:
  "snd (secondary_step env title year mediaType result) =
     (if RottenTomatoes result = None \<and> title \<noteq> []
      then [CallRT (rt_query title year) (rt_filter mediaType)] else [])"
  by (auto simp: secondary_step_def getRTRatings_def
           split: outcome.splits sum.splits option.splits)

lemma secondary_step_keeps:
  "secondary_step env title year mediaType result = (Ret result', calls) \<Longrightarrow>
     (RottenTomatoes result \<noteq> None \<longrightarrow> result' = result)
     \<and> (\<forall>v. RTAudienceScore result = Some v \<longrightarrow> RTAudienceScore result' = Some v)
     \<and> (RTCertified result \<longrightarrow> RTCertified result')
     \<and> IMDB result' = IMDB result \<and> Metacritic result' = Metacritic result"
  by (auto simp: secondary_step_def getRTRatings_def merge_rt_fields
           split: outcome.splits sum.splits option.splits if_splits)

lemma mdb_rating_certified:
  "mdb_rating res r = Ret res' \<Longrightarrow> RTCertified res' = RTCertified res"
  by (auto simp: mdb_rating_def Let_def split: option.splits if_splits)

lemma mdb_ratings_loop_certified:
  "mdb_ratings_loop res rs = Ret res' \<Longrightarrow> RTCertified res' = RTCertified res"
  by (induction rs arbitrary: res) (auto split: outcome.splits dest: mdb_rating_certified)

lemma primary_step_not_certified:
  "primary_step db env mediaType imdbID tmdbID = (Ret r, calls) \<Longrightarrow> \<not> RTCertified r"
  by (auto simp: primary_step_def getMDBListRatings_def mdblist_response_def empty_result_def Let_def
           split: if_splits option.splits outcome.splits sum.splits http_result.splits
           dest: mdb_ratings_loop_certified)

lemma GetRatings_80_60:
  "GetRatings db_mdblist (NewCache 600) env_80_60 ''T'' [] ''movie'' ''tt1'' 0
     = Ret ((empty_result\<lparr>RottenTomatoes := Some 80\<rparr>, None),
            Set (NewCache 600) 1 (ratings_key ''T'' [] ''movie'')
              (VRatings (empty_result\<lparr>RottenTomatoes := Some 80\<rparr>)),
            [CallMDBList [(''apikey'', ''key''), (''i'', ''tt1'')]])"
  by (simp add: ratings_eval db_mdblist_def env_80_60_def)

text \<open>
  Claim C3. In the merge, the critics score and the audience score of the secondary result
  are taken only where the result of the primary step has none, and a score the primary step
  has set is kept; the certified flag, which the primary step never sets, becomes true only
  when the secondary result has it true, and is never cleared; the IMDB and Metacritic fields
  are not touched. The secondary provider is called exactly when the critics score is unset
  after the primary step and the title is not empty. With a primary critics score of 80 and a
  secondary critics score of 60 the final record has 80.
\<close>

theorem merge_never_overwrites:
  "RottenTomatoes (merge_rt result rtResult) =
      (case RottenTomatoes result of Some v \<Rightarrow> Some v | None \<Rightarrow> RottenTomatoes rtResult)
   \<and> RTAudienceScore (merge_rt result rtResult) =
      (case RTAudienceScore result of Some v \<Rightarrow> Some v | None \<Rightarrow> RTAudienceScore rtResult)
   \<and> RTCertified (merge_rt result rtResult) = (RTCertified result \<or> RTCertified rtResult)
   \<and> IMDB (merge_rt result rtResult) = IMDB result
   \<and> Metacritic (merge_rt result rtResult) = Metacritic result
   \<and> (primary_step db env mediaType imdbID tmdbID = (Ret result1, calls1) \<longrightarrow> \<not> RTCertified result1)
   \<and> snd (secondary_step env title year mediaType result) =
       (if RottenTomatoes result = None \<and> title \<noteq> []
        then [CallRT (rt_query title year) (rt_filter mediaType)] else [])
   \<and> (secondary_step env title year mediaType result = (Ret result', calls) \<longrightarrow>
        (RottenTomatoes result \<noteq> None \<longrightarrow> result' = result)
        \<and> (\<forall>v. RTAudienceScore result = Some v \<longrightarrow> RTAudienceScore result' = Some v)
        \<and> (RTCertified result \<longrightarrow> RTCertified result')
        \<and> IMDB result' = IMDB result \<and> Metacritic result' = Metacritic result)
   \<and> RottenTomatoes (merge_rt (empty_result\<lparr>RottenTomatoes := Some 80\<rparr>)
                                 (empty_result\<lparr>RottenTomatoes := Some 60\<rparr>)) = Some 80
   \<and> GetRatings db_mdblist (NewCache 600) env_80_60 ''T'' [] ''movie'' ''tt1'' 0
       = Ret ((empty_result\<lparr>RottenTomatoes := Some 80\<rparr>, None),
              Set (NewCache 600) 1 (ratings_key ''T'' [] ''movie'')
                (VRatings (empty_result\<lparr>RottenTomatoes := Some 80\<rparr>)),
              [CallMDBList [(''apikey'', ''key''), (''i'', ''tt1'')]])"
proof -
  have primary: "primary_step db env mediaType imdbID tmdbID = (Ret result1, calls1)
                   \<longrightarrow> \<not> RTCertified result1"
    using primary_step_not_certified by blast
  have keeps: "secondary_step env title year mediaType result = (Ret result', calls) \<longrightarrow>
        (RottenTomatoes result \<noteq> None \<longrightarrow> result' = result)
        \<and> (\<forall>v. RTAudienceScore result = Some v \<longrightarrow> RTAudienceScore result' = Some v)
        \<and> (RTCertified result \<longrightarrow> RTCertified result')
        \<and> IMDB result' = IMDB result \<and> Metacritic result' = Metacritic result"
    using secondary_step_keeps by blast
  have example: "RottenTomatoes (merge_rt (empty_result\<lparr>RottenTomatoes := Some 80\<rparr>)
                                 (empty_result\<lparr>RottenTomatoes := Some 60\<rparr>)) = Some 80"
    by (simp add: merge_rt_fields)
  show ?thesis
    using primary keeps example
    by (simp only: merge_rt_fields secondary_step_calls GetRatings_80_60 simp_thms)
qed

theorem merge_never_overwrites_witness:
  "primary_step db_mdblist env_80_60 ''movie'' ''tt1'' 0
     = (Ret (empty_result\<lparr>RottenTomatoes := Some 80\<rparr>), [CallMDBList [(''apikey'', ''key''), (''i'', ''tt1'')]])
   \<and> \<not> RTCertified (empty_result\<lparr>RottenTomatoes := Some 80\<rparr>)
   \<and> secondary_step env_80_60 ''T'' [] ''movie'' (empty_result\<lparr>RottenTomatoes := Some 80\<rparr>)
     = (Ret (empty_result\<lparr>RottenTomatoes := Some 80\<rparr>), [])
   \<and> RottenTomatoes (empty_result\<lparr>RottenTomatoes := Some 80\<rparr>) \<noteq> None"
proof -
  have p: "primary_step db_mdblist env_80_60 ''movie'' ''tt1'' 0
     = (Ret (empty_result\<lparr>RottenTomatoes := Some 80\<rparr>), [CallMDBList [(''apikey'', ''key''), (''i'', ''tt1'')]])"
    by (simp add: ratings_eval db_mdblist_def env_80_60_def)
  have s: "secondary_step env_80_60 ''T'' [] ''movie'' (empty_result\<lparr>RottenTomatoes := Some 80\<rparr>)
     = (Ret (empty_result\<lparr>RottenTomatoes := Some 80\<rparr>), [])"
    by (simp add: secondary_step_def)
  from p s merge_never_overwrites
         [of "empty_result\<lparr>RottenTomatoes := Some 80\<rparr>" "empty_result\<lparr>RottenTomatoes := Some 60\<rparr>"
             db_mdblist env_80_60 "''movie''" "''tt1''" 0
             "empty_result\<lparr>RottenTomatoes := Some 80\<rparr>"
             "[CallMDBList [(''apikey'', ''key''), (''i'', ''tt1'')]]"
             "''T''" "[]" "empty_result\<lparr>RottenTomatoes := Some 80\<rparr>" "[]"]
  show ?thesis by (simp add: empty_result_def)
qed

lemma GetRatings_miss_caches:
  "Get c (r_get_time env) (ratings_key title year mediaType) = None \<Longrightarrow>
   GetRatings db c env title year mediaType imdbID tmdbID = Ret ((r, e), c', calls) \<Longrightarrow>
   e = None \<and> c' = Set c (r_set_time env) (ratings_key title year mediaType) (VRatings r)"
  by (auto simp: GetRatings_def Let_def split: outcome.splits prod.splits)

lemma GetRatings_hit:
  "r_get_time env' \<le> t + ttl c \<Longrightarrow>
   GetRatings db' (Set c t (ratings_key title year mediaType) (VRatings r)) env'
       title year mediaType imdbID' tmdbID'
     = Ret ((r, None), Set c t (ratings_key title year mediaType) (VRatings r), [])"
  by (simp add: GetRatings_def Get_Set_same)

lemma GetRatings_providers_down:
  "Get c 0 (ratings_key title year mediaType) = None \<Longrightarrow>
   \<exists>calls. GetRatings db c env_down title year mediaType imdbID tmdbID
     = Ret ((empty_result, None),
            Set c 1 (ratings_key title year mediaType) (VRatings empty_result), calls)"
  by (auto simp: GetRatings_def Let_def primary_step_def secondary_step_def env_down_def
        getMDBListRatings_def mdblist_response_def getRTRatings_def rt_response_def
        split: option.splits)

text \<open>
  Claim C4. \<open>GetRatings\<close> is to cache the merged record whatever the providers did, and
  the caller is always to receive a record. With the MDBList key configured and MDBList
  answering status 200 with the body \<open>{"ratings": [1]}\<close>, the assertion
  \<open>r.(map[string]interface{})\<close> in the loop over the ratings panics: \<open>GetRatings\<close>
  returns no record and caches nothing.
\<close>

theorem GetRatings_panics_on_non_object_rating:
  "GetRatings db_mdblist (NewCache 600) env_bad_rating ''T'' [] ''movie'' ''tt1'' 0 = Panic"
  by (simp add: ratings_eval db_mdblist_def env_bad_rating_def)

text \<open>
  Claim C7, as the claim states it, fails: a call with no title and no identifier that
  misses the cache gets the empty record and no error, and the HTTP handler lets a call with
  an empty title, an empty IMDB id and the TMDB id -1 through to the same result.
\<close>

theorem no_identifier_is_not_an_error:
  "GetRatings db_mdblist (NewCache 600) env_down [] [] ''movie'' [] 0
     = Ret ((empty_result, None),
            Set (NewCache 600) 1 (ratings_key [] [] ''movie'') (VRatings empty_result), [])
   \<and> handler_GetRatings db_mdblist (NewCache 600) env_down [] [] ''movie'' [] (- 1)
     = Ret (JsonRatings empty_result,
            Set (NewCache 600) 1 (ratings_key [] [] ''movie'') (VRatings empty_result), [])"
  by (simp add: handler_GetRatings_def ratings_eval db_mdblist_def env_down_def)

text \<open>
  Claim C7, amended. \<open>GetRatings\<close> never returns an error. A call with an empty title, an
  empty IMDB id and a TMDB id that is not positive, when it misses the cache, calls no
  provider, returns the empty record with no error and caches it: the "no ID provided"
  error of the MDBList lookup is dropped like every other provider error. The rejection the
  caller sees is the handler's status 400, given exactly when the title and the IMDB id are
  empty and the parsed TMDB id is 0.
\<close>

theorem GetRatings_returns_no_error:
  "GetRatings db c env title year mediaType imdbID tmdbID \<noteq> Ret ((r, Some err), c', calls)
   \<and> (title = [] \<and> imdbID = [] \<and> tmdbID \<le> 0
        \<and> Get c (r_get_time env) (ratings_key title year mediaType) = None \<longrightarrow>
      GetRatings db c env title year mediaType imdbID tmdbID
        = Ret ((empty_result, None),
               Set c (r_set_time env) (ratings_key title year mediaType) (VRatings empty_result),
               []))
   \<and> ((\<exists>msg c'' calls''. handler_GetRatings db c env title year mediaType imdbID tmdbID
                            = Ret (BadRequest msg, c'', calls''))
      = (title = [] \<and> imdbID = [] \<and> tmdbID = 0))"
proof -
  have never: "GetRatings db c env title year mediaType imdbID tmdbID \<noteq> Ret ((r, Some err), c', calls)"
    by (auto simp: GetRatings_def Let_def split: option.splits cval.splits outcome.splits prod.splits)
  have no_id: "title = [] \<and> imdbID = [] \<and> tmdbID \<le> 0
        \<and> Get c (r_get_time env) (ratings_key title year mediaType) = None \<longrightarrow>
      GetRatings db c env title year mediaType imdbID tmdbID
        = Ret ((empty_result, None),
               Set c (r_set_time env) (ratings_key title year mediaType) (VRatings empty_result),
               [])"
    by (auto simp: GetRatings_def Let_def primary_step_def secondary_step_def
          getMDBListRatings_def mdblist_params_def)
  have handler: "(\<exists>msg c'' calls''. handler_GetRatings db c env title year mediaType imdbID tmdbID
                            = Ret (BadRequest msg, c'', calls''))
      = (title = [] \<and> imdbID = [] \<and> tmdbID = 0)"
    by (auto simp: handler_GetRatings_def split: option.splits outcome.splits prod.splits)
  from never no_id handler show ?thesis by blast
qed

theorem GetRatings_returns_no_error_witness:
  "[] = ([]::string) \<and> (- 1::int) \<le> 0
   \<and> Get (NewCache 600 :: cval Cache) (r_get_time env_down) (ratings_key [] [] ''tv'') = None
   \<and> GetRatings db_mdblist (NewCache 600) env_down [] [] ''tv'' [] (- 1)
     = Ret ((empty_result, None),
            Set (NewCache 600) (r_set_time env_down) (ratings_key [] [] ''tv'') (VRatings empty_result),
            [])"
proof -
  have miss: "Get (NewCache 600 :: cval Cache) (r_get_time env_down) (ratings_key [] [] ''tv'') = None"
    by (simp add: Get_def NewCache_def)
  from miss GetRatings_returns_no_error
              [of db_mdblist "NewCache 600" env_down "[]" "[]" "''tv''" "[]" "- 1"]
  show ?thesis by simp
qed

section \<open>Decimal numerals and cache keys\<close>









lemma Sprintf_d_1: "Sprintf_d 1 = ''1''"
  by (simp add: Sprintf_d_def decimal.simps digit_char_def)

lemma Sprintf_d_2: "Sprintf_d 2 = ''2''"
  by (simp add: Sprintf_d_def decimal.simps digit_char_def)

section \<open>Properties of the task of one item\<close>

lemma Get_miss_later: "Get c t key = None \<Longrightarrow> t \<le> t' \<Longrightarrow> Get c t' key = None"
  by (auto simp: Get_def split: option.splits if_splits)

lemma int_of_float64_of_int:
  "min_int \<le> n \<Longrightarrow> n \<le> max_int \<Longrightarrow> int_of_float64 (of_int n) = n"
  by (simp add: int_of_float64_def)

lemma value_fits_movie_key: "value_fits (movie_key i) v = (\<exists>s. v = VString s)"
  by (auto simp: value_fits_def movie_key_def split: cval.splits)










section \<open>Properties of the enrichment pipeline\<close>


lemma value_fits_existing_movies: "value_fits ''existing_movies'' v = (\<exists>ids. v = VIDs ids)"
  by (auto simp: value_fits_def split: cval.splits)


lemma cache_typed_SetWithTTL:
  "cache_typed c \<Longrightarrow> value_fits key v \<Longrightarrow> cache_typed (SetWithTTL c t key v d)"
  by (auto simp: cache_typed_def SetWithTTL_def)

lemma cache_typed_Set:
  "cache_typed c \<Longrightarrow> value_fits key v \<Longrightarrow> cache_typed (Set c t key v)"
  by (auto simp: cache_typed_def Set_def)


lemma getExistingMovieIDs_bad_url:
  "GetSetting db ''radarr_url'' \<noteq> [] \<Longrightarrow> GetSetting db ''radarr_api_key'' \<noteq> [] \<Longrightarrow>
   Get c (a_get_time env) ''existing_movies'' = None \<Longrightarrow>
   \<not> accepts_url env (GetSetting db ''radarr_url'' @ ''/api/v3/movie'') \<Longrightarrow>
   getExistingMovieIDs db c env = Panic"
  by (simp add: getExistingMovieIDs_def getExistingIDs_def Let_def)

lemma getExistingMovieIDs_bad_url_example:
  "getExistingMovieIDs db_radarr_bad_url appCache arr_env_two_movies = Panic"
  by (simp add: getExistingMovieIDs_def getExistingIDs_def Let_def GetSetting_def
        db_radarr_bad_url_def arr_env_two_movies_def Get_def appCache_def NewCache_def)




lemma movie_task_typed:
  "cache_typed c \<Longrightarrow> movie_task db e r c env m = Ret (it, c', calls) \<Longrightarrow> cache_typed c'"
  by (auto simp: movie_task_def movie_resolve_def Let_def cache_typed_Set value_fits_movie_key
           split: option.splits cval.splits outcome.splits prod.splits sum.splits)






lemmas discover_eval =
  Let_def DiscoverMovies_def enrich_page_def request_def GetSetting_def decode_map_def jget_def
  getExistingMovieIDs_def getExistingIDs_def GetRequestedIDs_def movie_task_def movie_resolve_def
  movie_imdb_id_def movie_status_def getString_def getInt_def int_of_float64_def min_int_def
  max_int_def movie_key_def
  Get_def Set_def NewCache_def appCache_def Sprintf_d_1 Sprintf_d_2
  requested_movies_query_def requested_series_query_def

lemma page_first_call:
  "DiscoverMovies (db_tmdb\<lparr>query := (\<lambda>q. Rows [])\<rparr>) appCache env_page 1 ''popularity.desc'' []
     = Ret (Inr ([zero_item\<lparr>TmdbID := 1, Title := ''A'', RequestStatus := ''available'', Source := ''tmdb''\<rparr>,
                  zero_item\<lparr>TmdbID := 2, ImdbID := ''tt2'', Title := ''B'', RequestStatus := ''available'', Source := ''tmdb''\<rparr>], 1),
            Set appCache 2 (movie_key 2) (VString ''tt2''),
            [CallTMDB ''discover/movie'' (movie_params 1 ''popularity.desc'' []),
             CallDB requested_movies_query,
             CallTMDB ''movie/2'' [(''append_to_response'', ''external_ids'')],
             CallTMDB ''movie/1'' [(''append_to_response'', ''external_ids'')]])"
  by (simp add: discover_eval db_tmdb_def env_page_def page_data_def page_raws_def zero_item_def)

lemma page_second_call:
  "DiscoverMovies db_tmdb (Set appCache 2 (movie_key 2) (VString ''tt2'')) env_page 1 ''popularity.desc'' []
     = Ret (Inr ([zero_item\<lparr>TmdbID := 1, Title := ''A'', RequestStatus := ''available'', Source := ''tmdb''\<rparr>,
                  zero_item\<lparr>TmdbID := 2, ImdbID := ''tt2'', Title := ''B'', RequestStatus := ''requested'', Source := ''tmdb''\<rparr>], 1),
            Set appCache 2 (movie_key 2) (VString ''tt2''),
            [CallTMDB ''discover/movie'' (movie_params 1 ''popularity.desc'' []),
             CallDB requested_movies_query,
             CallTMDB ''movie/1'' [(''append_to_response'', ''external_ids'')]])"
  by (simp add: discover_eval db_tmdb_def env_page_def page_data_def page_raws_def zero_item_def minute_def)


text \<open>
  Claim C8, as the claim states it, fails for the requested set, which is not backed by the
  cache. Two calls of \<open>DiscoverMovies\<close> with the same clock readings, between which movie 2
  is added to the ledger: the second call queries the ledger again and reports movie 2 as
  requested, which a set cached by the first call would not show.
\<close>

theorem requested_set_is_read_from_the_ledger_each_call:
  "map RequestStatus (page_of (DiscoverMovies db_tmdb_no_requests appCache env_page 1 ''popularity.desc'' []))
     = [''available'', ''available'']
   \<and> map RequestStatus
        (page_of (DiscoverMovies db_tmdb
           (cache_after appCache (DiscoverMovies db_tmdb_no_requests appCache env_page 1 ''popularity.desc'' []))
           env_page 1 ''popularity.desc'' []))
     = [''available'', ''requested'']
   \<and> filter is_db_call
        (calls_of (DiscoverMovies db_tmdb
           (cache_after appCache (DiscoverMovies db_tmdb_no_requests appCache env_page 1 ''popularity.desc'' []))
           env_page 1 ''popularity.desc'' []))
     = [CallDB requested_movies_query]"
  unfolding db_tmdb_no_requests_def page_first_call
  by (simp add: page_of_def cache_after_def calls_of_def page_second_call zero_item_def)

lemma request_calls: "request db ep ps resp = (x, calls) \<Longrightarrow> \<forall>y\<in>set calls. \<not> is_db_call y \<and> \<not> is_arr_call y"
  by (auto simp: request_def Let_def split: if_splits)

lemma movie_task_calls:
  "movie_task db e r c env m = Ret (it, c', calls) \<Longrightarrow> \<forall>y\<in>set calls. \<not> is_db_call y \<and> \<not> is_arr_call y"
  by (auto simp: movie_task_def movie_resolve_def Let_def
           split: option.splits outcome.splits cval.splits prod.splits sum.splits
           dest!: request_calls)

lemma run_tasks_calls:
  "run_tasks (movie_task db e r) envs raws sched slots c calls = Ret (slots', c', calls') \<Longrightarrow>
     filter is_db_call calls' = filter is_db_call calls
     \<and> filter is_arr_call calls' = filter is_arr_call calls"
proof (induction sched arbitrary: slots c calls)
  case Nil
  then show ?case by simp
next
  case (Cons idx sched)
  from Cons.prems obtain it c1 calls1 where
    task: "movie_task db e r c (envs idx) (raws ! idx) = Ret (it, c1, calls1)"
    and rest: "run_tasks (movie_task db e r) envs raws sched (slots[idx := it]) c1 (calls @ calls1)
                 = Ret (slots', c', calls')"
    by (auto split: if_splits outcome.splits)
  from movie_task_calls[OF task] have "filter is_db_call calls1 = []" "filter is_arr_call calls1 = []"
    by (simp_all add: filter_empty_conv)
  with Cons.IH[OF rest] show ?case by simp
qed

lemma getExistingMovieIDs_calls:
  "getExistingMovieIDs db c env = Ret (x, c1, calls) \<Longrightarrow>
     filter is_db_call calls = [] \<and> length (filter is_arr_call calls) \<le> 1"
  by (auto simp: getExistingMovieIDs_def getExistingIDs_def Let_def
           split: if_splits option.splits cval.splits sum.splits)

lemma GetRequestedIDs_calls:
  "snd (GetRequestedIDs db mediaType) =
     [CallDB (if mediaType = ''series'' then requested_series_query else requested_movies_query)]"
  by (simp add: GetRequestedIDs_def Let_def)

lemma enrich_page_movie_calls:
  "enrich_page getExistingMovieIDs ''movie'' movie_task db c env data = Ret (p, c', calls) \<Longrightarrow>
     length (filter is_db_call calls) = 1 \<and> length (filter is_arr_call calls) \<le> 1"
proof -
  assume a: "enrich_page getExistingMovieIDs ''movie'' movie_task db c env data = Ret (p, c', calls)"
  obtain requested calls2 where rq: "GetRequestedIDs db ''movie'' = (requested, calls2)"
    by (cases "GetRequestedIDs db ''movie''")
  with GetRequestedIDs_calls[of db "''movie''"] have c2: "filter is_db_call calls2 = calls2" "length calls2 = 1"
     "filter is_arr_call calls2 = []"
    by auto
  from a rq obtain ex c1 calls1 raws slots c2' calls3 where
    ex: "getExistingMovieIDs db c (existing_env env) = Ret (ex, c1, calls1)"
    and run: "run_tasks (movie_task db (fst ex) (case requested of Inr ids \<Rightarrow> ids | Inl err2 \<Rightarrow> {}))
                (task_env env) raws (schedule env)
                (replicate (length (case as_slice (jget data ''results'') of Some rs \<Rightarrow> rs | None \<Rightarrow> [])) zero_item)
                c1 [] = Ret (slots, c2', calls3)"
    and calls: "calls = calls1 @ calls2 @ calls3"
    by (auto simp: enrich_page_def Let_def split: option.splits outcome.splits prod.splits)
  from run_tasks_calls[OF run] have "filter is_db_call calls3 = []" "filter is_arr_call calls3 = []"
    by simp_all
  with getExistingMovieIDs_calls[OF ex] c2 calls show ?thesis by simp
qed

lemma DiscoverMovies_calls:
  "DiscoverMovies db c env page sortBy year = Ret (Inr p, c', calls) \<Longrightarrow>
     length (filter is_db_call calls) = 1 \<and> length (filter is_arr_call calls) \<le> 1"
proof -
  assume a: "DiscoverMovies db c env page sortBy year = Ret (Inr p, c', calls)"
  then obtain data calls0 calls1 where
    req: "request db ''discover/movie'' (movie_params page sortBy year) (discover_reply env) = (Inr data, calls0)"
    and page: "enrich_page getExistingMovieIDs ''movie'' movie_task db c env data = Ret (p, c', calls1)"
    and calls: "calls = calls0 @ calls1"
    by (auto simp: DiscoverMovies_def split: prod.splits sum.splits outcome.splits)
  from request_calls[OF req] have "filter is_db_call calls0 = []" "filter is_arr_call calls0 = []"
    by (simp_all add: filter_empty_conv)
  with enrich_page_movie_calls[OF page] calls show ?thesis by simp
qed

lemma getExistingMovieIDs_miss:
  "GetSetting db ''radarr_url'' \<noteq> [] \<Longrightarrow> GetSetting db ''radarr_api_key'' \<noteq> [] \<Longrightarrow>
   Get c (a_get_time aenv) ''existing_movies'' = None \<Longrightarrow>
   accepts_url aenv (GetSetting db ''radarr_url'' @ ''/api/v3/movie'') \<Longrightarrow>
   decode_maps (arr_reply aenv) = Inr ms \<Longrightarrow>
   getExistingMovieIDs db c aenv =
     Ret ((collect_ids ''tmdbId'' ms, None),
          SetWithTTL c (a_set_time aenv) ''existing_movies'' (VIDs (collect_ids ''tmdbId'' ms)) (2 * minute),
          [CallArr (GetSetting db ''radarr_url'' @ ''/api/v3/movie'')])"
  by (simp add: getExistingMovieIDs_def getExistingIDs_def Let_def)

lemma getExistingMovieIDs_hit:
  "GetSetting db ''radarr_url'' \<noteq> [] \<Longrightarrow> GetSetting db ''radarr_api_key'' \<noteq> [] \<Longrightarrow>
   a_get_time aenv' \<le> t + 2 * minute \<Longrightarrow>
   getExistingMovieIDs db (SetWithTTL c t ''existing_movies'' (VIDs ids) (2 * minute)) aenv'
     = Ret ((ids, None), SetWithTTL c t ''existing_movies'' (VIDs ids) (2 * minute), [])"
  by (simp add: getExistingMovieIDs_def getExistingIDs_def Let_def Get_SetWithTTL_same)

lemma existing_ttl_shorter: "2 * minute < ttl appCache"
  by (simp add: appCache_def NewCache_def minute_def)

text \<open>
  Claim C8, amended. One call of \<open>DiscoverMovies\<close> that returns a page reads the request
  ledger exactly once and calls Radarr at most once, however many items the page has. Only
  the existing-library fetch goes through the cache: with a Radarr URL that
  \<open>http.NewRequest\<close> accepts, a Radarr listing that decodes is stored under
  \<open>existing_movies\<close> with a TTL of two minutes, which is shorter than the default TTL of ten
  minutes, and a fetch that reads the cache within those two minutes returns the stored set
  without calling Radarr. The requested set is not cached: every call of \<open>GetRequestedIDs\<close>
  queries the ledger.
\<close>

theorem sets_fetched_once_existing_cached:
  "(DiscoverMovies db c env page sortBy year = Ret (Inr p, c', calls) \<longrightarrow>
      length (filter is_db_call calls) = 1 \<and> length (filter is_arr_call calls) \<le> 1)
   \<and> (GetSetting db ''radarr_url'' \<noteq> [] \<and> GetSetting db ''radarr_api_key'' \<noteq> []
      \<and> Get c (a_get_time aenv) ''existing_movies'' = None
      \<and> accepts_url aenv (GetSetting db ''radarr_url'' @ ''/api/v3/movie'')
      \<and> decode_maps (arr_reply aenv) = Inr ms \<longrightarrow>
      getExistingMovieIDs db c aenv
        = Ret ((collect_ids ''tmdbId'' ms, None),
               SetWithTTL c (a_set_time aenv) ''existing_movies''
                 (VIDs (collect_ids ''tmdbId'' ms)) (2 * minute),
               [CallArr (GetSetting db ''radarr_url'' @ ''/api/v3/movie'')]))
   \<and> (GetSetting db ''radarr_url'' \<noteq> [] \<and> GetSetting db ''radarr_api_key'' \<noteq> []
      \<and> a_get_time aenv' \<le> t + 2 * minute \<longrightarrow>
      getExistingMovieIDs db (SetWithTTL c t ''existing_movies'' (VIDs ids) (2 * minute)) aenv'
        = Ret ((ids, None), SetWithTTL c t ''existing_movies'' (VIDs ids) (2 * minute), []))
   \<and> 2 * minute < ttl appCache
   \<and> snd (GetRequestedIDs db mediaType)
       = [CallDB (if mediaType = ''series'' then requested_series_query
                  else requested_movies_query)]"
  using DiscoverMovies_calls[of db c env page sortBy year p c' calls]
        getExistingMovieIDs_miss[of db c aenv ms]
        getExistingMovieIDs_hit[of db aenv' t c ids]
        existing_ttl_shorter
        GetRequestedIDs_calls[of db mediaType]
  by simp

theorem sets_fetched_once_existing_cached_witness:
  "DiscoverMovies db_tmdb_no_requests appCache env_page 1 ''popularity.desc'' []
     = Ret (Inr ([zero_item\<lparr>TmdbID := 1, Title := ''A'', RequestStatus := ''available'', Source := ''tmdb''\<rparr>,
                  zero_item\<lparr>TmdbID := 2, ImdbID := ''tt2'', Title := ''B'', RequestStatus := ''available'', Source := ''tmdb''\<rparr>], 1),
            Set appCache 2 (movie_key 2) (VString ''tt2''),
            [CallTMDB ''discover/movie'' (movie_params 1 ''popularity.desc'' []),
             CallDB requested_movies_query,
             CallTMDB ''movie/2'' [(''append_to_response'', ''external_ids'')],
             CallTMDB ''movie/1'' [(''append_to_response'', ''external_ids'')]])
   \<and> length (filter is_db_call
        [CallTMDB ''discover/movie'' (movie_params 1 ''popularity.desc'' []),
         CallDB requested_movies_query,
         CallTMDB ''movie/2'' [(''append_to_response'', ''external_ids'')],
         CallTMDB ''movie/1'' [(''append_to_response'', ''external_ids'')]]) = 1
   \<and> GetSetting db_radarr ''radarr_url'' \<noteq> [] \<and> GetSetting db_radarr ''radarr_api_key'' \<noteq> []
   \<and> Get appCache (a_get_time arr_env_two_movies) ''existing_movies'' = None
   \<and> accepts_url arr_env_two_movies (GetSetting db_radarr ''radarr_url'' @ ''/api/v3/movie'')
   \<and> decode_maps (arr_reply arr_env_two_movies) = Inr [[(''tmdbId'', JNum 1)], [(''tmdbId'', JNum 2)]]
   \<and> getExistingMovieIDs db_radarr appCache arr_env_two_movies
       = Ret ((collect_ids ''tmdbId'' [[(''tmdbId'', JNum 1)], [(''tmdbId'', JNum 2)]], None),
              SetWithTTL appCache (a_set_time arr_env_two_movies) ''existing_movies''
                (VIDs (collect_ids ''tmdbId'' [[(''tmdbId'', JNum 1)], [(''tmdbId'', JNum 2)]])) (2 * minute),
              [CallArr (GetSetting db_radarr ''radarr_url'' @ ''/api/v3/movie'')])
   \<and> collect_ids ''tmdbId'' [[(''tmdbId'', JNum 1)], [(''tmdbId'', JNum 2)]] = {1, 2}
   \<and> a_get_time arr_env_two_movies \<le> 0 + 2 * minute
   \<and> getExistingMovieIDs db_radarr (SetWithTTL appCache 0 ''existing_movies'' (VIDs {1, 2}) (2 * minute))
        arr_env_two_movies
       = Ret (({1, 2}, None), SetWithTTL appCache 0 ''existing_movies'' (VIDs {1, 2}) (2 * minute), [])"
proof -
  have first: "DiscoverMovies db_tmdb_no_requests appCache env_page 1 ''popularity.desc'' []
     = Ret (Inr ([zero_item\<lparr>TmdbID := 1, Title := ''A'', RequestStatus := ''available'', Source := ''tmdb''\<rparr>,
                  zero_item\<lparr>TmdbID := 2, ImdbID := ''tt2'', Title := ''B'', RequestStatus := ''available'', Source := ''tmdb''\<rparr>], 1),
            Set appCache 2 (movie_key 2) (VString ''tt2''),
            [CallTMDB ''discover/movie'' (movie_params 1 ''popularity.desc'' []),
             CallDB requested_movies_query,
             CallTMDB ''movie/2'' [(''append_to_response'', ''external_ids'')],
             CallTMDB ''movie/1'' [(''append_to_response'', ''external_ids'')]])"
    unfolding db_tmdb_no_requests_def by (rule page_first_call)
  have conf: "GetSetting db_radarr ''radarr_url'' \<noteq> []" "GetSetting db_radarr ''radarr_api_key'' \<noteq> []"
    by (simp_all add: GetSetting_def db_radarr_def)
  have miss: "Get appCache (a_get_time arr_env_two_movies) ''existing_movies'' = None"
    by (simp add: Get_def appCache_def NewCache_def)
  have builds: "accepts_url arr_env_two_movies (GetSetting db_radarr ''radarr_url'' @ ''/api/v3/movie'')"
    by (simp add: arr_env_two_movies_def GetSetting_def db_radarr_def)
  have dec: "decode_maps (arr_reply arr_env_two_movies) = Inr [[(''tmdbId'', JNum 1)], [(''tmdbId'', JNum 2)]]"
    by (simp add: decode_maps_def arr_env_two_movies_def)
  have ids: "collect_ids ''tmdbId'' [[(''tmdbId'', JNum 1)], [(''tmdbId'', JNum 2)]] = {1, 2}"
    by (simp add: collect_ids_def List.map_filter_def jget_def int_of_float64_def
          min_int_def max_int_def)
  have time: "a_get_time arr_env_two_movies \<le> 0 + 2 * minute"
    by (simp add: arr_env_two_movies_def minute_def)
  note page_instance = sets_fetched_once_existing_cached
         [where db = db_tmdb_no_requests and c = appCache and env = env_page and page = 1
            and sortBy = "''popularity.desc''" and year = "[]"
            and p = "([zero_item\<lparr>TmdbID := 1, Title := ''A'', RequestStatus := ''available'', Source := ''tmdb''\<rparr>,
                  zero_item\<lparr>TmdbID := 2, ImdbID := ''tt2'', Title := ''B'', RequestStatus := ''available'', Source := ''tmdb''\<rparr>], 1)"
            and c' = "Set appCache 2 (movie_key 2) (VString ''tt2'')"
            and calls = "[CallTMDB ''discover/movie'' (movie_params 1 ''popularity.desc'' []),
             CallDB requested_movies_query,
             CallTMDB ''movie/2'' [(''append_to_response'', ''external_ids'')],
             CallTMDB ''movie/1'' [(''append_to_response'', ''external_ids'')]]"]
  note radarr_instance = sets_fetched_once_existing_cached
         [where db = db_radarr and c = appCache and aenv = arr_env_two_movies
            and ms = "[[(''tmdbId'', JNum 1)], [(''tmdbId'', JNum 2)]]"
            and aenv' = arr_env_two_movies and t = 0 and ids = "{1, 2}"]
  from page_instance[THEN conjunct1, THEN mp, OF first, THEN conjunct1]
  have once: "length (filter is_db_call
        [CallTMDB ''discover/movie'' (movie_params 1 ''popularity.desc'' []),
         CallDB requested_movies_query,
         CallTMDB ''movie/2'' [(''append_to_response'', ''external_ids'')],
         CallTMDB ''movie/1'' [(''append_to_response'', ''external_ids'')]]) = 1" .
  from radarr_instance[THEN conjunct2, THEN conjunct1, THEN mp] conf miss builds dec
  have stored: "getExistingMovieIDs db_radarr appCache arr_env_two_movies
       = Ret ((collect_ids ''tmdbId'' [[(''tmdbId'', JNum 1)], [(''tmdbId'', JNum 2)]], None),
              SetWithTTL appCache (a_set_time arr_env_two_movies) ''existing_movies''
                (VIDs (collect_ids ''tmdbId'' [[(''tmdbId'', JNum 1)], [(''tmdbId'', JNum 2)]])) (2 * minute),
              [CallArr (GetSetting db_radarr ''radarr_url'' @ ''/api/v3/movie'')])"
    by blast
  from radarr_instance[THEN conjunct2, THEN conjunct2, THEN conjunct1, THEN mp] conf time
  have reused: "getExistingMovieIDs db_radarr (SetWithTTL appCache 0 ''existing_movies'' (VIDs {1, 2}) (2 * minute))
        arr_env_two_movies
       = Ret (({1, 2}, None), SetWithTTL appCache 0 ''existing_movies'' (VIDs {1, 2}) (2 * minute), [])"
    by blast
  show ?thesis
    by (intro conjI) (rule first once conf miss builds dec stored ids time reused)+
qed

section \<open>Status and identifier resolution\<close>

lemma movie_task_status:
  "movie_task db e r c env movie = Ret (it, c', calls) \<Longrightarrow>
     RequestStatus it = movie_status e r (TmdbID it)"
  by (auto simp: movie_task_def Let_def split: option.splits outcome.splits)

lemma tv_task_status:
  "tv_task db e r c env sh = Ret (it, c', calls) \<Longrightarrow>
     RequestStatus it = tv_status e r (TvdbID it)"
  by (auto simp: tv_task_def Let_def split: option.splits outcome.splits)

lemmas task_eval =
  Let_def movie_task_def tv_task_def movie_resolve_def tv_resolve_def movie_imdb_id_def
  tv_external_ids_def movie_status_def tv_status_def request_def GetSetting_def decode_map_def
  jget_def getString_def getInt_def int_of_float64_def min_int_def max_int_def movie_key_def tv_key_def
  Get_def NewCache_def appCache_def Sprintf_d_1

text \<open>
  Claim C6. The status of an enriched item is decided in the order exists, requested,
  available. A movie is looked up by its TMDB identifier: it is \<open>exists\<close> exactly when the
  identifier is in the existing-library set, whether or not it is also in the requested set,
  \<open>requested\<close> exactly when it is in the requested set and not in the existing-library set,
  and \<open>available\<close> otherwise. A show is looked up by its TVDB identifier in the same order;
  a TVDB identifier that is not positive is Go's zero value of an identifier that was not
  resolved, and such a show is \<open>available\<close>. The item each task returns carries the status
  computed from the identifier it carries.
\<close>

theorem status_precedence:
  "(movie_status e r i = ''exists'') = (i \<in> e)
   \<and> (movie_status e r i = ''requested'') = (i \<notin> e \<and> i \<in> r)
   \<and> (movie_status e r i = ''available'') = (i \<notin> e \<and> i \<notin> r)
   \<and> (tv_status e r i = ''exists'') = (0 < i \<and> i \<in> e)
   \<and> (tv_status e r i = ''requested'') = (0 < i \<and> i \<notin> e \<and> i \<in> r)
   \<and> (tv_status e r i = ''available'') = (i \<le> 0 \<or> (i \<notin> e \<and> i \<notin> r))
   \<and> (movie_task db e r c env movie = Ret (it, c', calls) \<longrightarrow>
        RequestStatus it = movie_status e r (TmdbID it))
   \<and> (tv_task db e r c env tv = Ret (it', c'', calls') \<longrightarrow>
        RequestStatus it' = tv_status e r (TvdbID it'))"
proof -
  have movie: "(movie_status e r i = ''exists'') = (i \<in> e)
     \<and> (movie_status e r i = ''requested'') = (i \<notin> e \<and> i \<in> r)
     \<and> (movie_status e r i = ''available'') = (i \<notin> e \<and> i \<notin> r)"
    by (simp add: movie_status_def)
  have tv: "(tv_status e r i = ''exists'') = (0 < i \<and> i \<in> e)
     \<and> (tv_status e r i = ''requested'') = (0 < i \<and> i \<notin> e \<and> i \<in> r)
     \<and> (tv_status e r i = ''available'') = (i \<le> 0 \<or> (i \<notin> e \<and> i \<notin> r))"
    by (auto simp: tv_status_def)
  from movie tv movie_task_status[of db e r c env movie it c' calls]
       tv_task_status[of db e r c env tv it' c'' calls']
  show ?thesis by blast
qed

theorem status_precedence_witness:
  "movie_task db_tmdb {1} {1} appCache item_env_down [(''id'', JNum 1)]
     = Ret (zero_item\<lparr>TmdbID := 1, RequestStatus := ''exists'', Source := ''tmdb''\<rparr>, appCache,
            [CallTMDB ''movie/1'' [(''append_to_response'', ''external_ids'')]])
   \<and> RequestStatus (zero_item\<lparr>TmdbID := 1, RequestStatus := ''exists'', Source := ''tmdb''\<rparr>)
       = movie_status {1} {1} 1
   \<and> movie_status {1} {1} 1 = ''exists''
   \<and> tv_task db_tmdb {5} {5} appCache item_env_tvdb_5 [(''id'', JNum 1)]
     = Ret (zero_item\<lparr>TmdbID := 1, TvdbID := 5, RequestStatus := ''exists'', Source := ''tmdb''\<rparr>,
            Set appCache 2 (tv_key 1) (VMap [(''tvdb'', JNum 5), (''imdb'', JStr [])]),
            [CallTMDB ''tv/1'' [(''append_to_response'', ''external_ids'')]])
   \<and> RequestStatus (zero_item\<lparr>TmdbID := 1, TvdbID := 5, RequestStatus := ''exists'', Source := ''tmdb''\<rparr>)
       = tv_status {5} {5} 5
   \<and> tv_status {5} {5} 5 = ''exists''
   \<and> tv_status {0} {0} 0 = ''available''"
proof -
  have m: "movie_task db_tmdb {1} {1} appCache item_env_down [(''id'', JNum 1)]
     = Ret (zero_item\<lparr>TmdbID := 1, RequestStatus := ''exists'', Source := ''tmdb''\<rparr>, appCache,
            [CallTMDB ''movie/1'' [(''append_to_response'', ''external_ids'')]])"
    by (simp add: task_eval db_tmdb_def item_env_down_def zero_item_def)
  have t: "tv_task db_tmdb {5} {5} appCache item_env_tvdb_5 [(''id'', JNum 1)]
     = Ret (zero_item\<lparr>TmdbID := 1, TvdbID := 5, RequestStatus := ''exists'', Source := ''tmdb''\<rparr>,
            Set appCache 2 (tv_key 1) (VMap [(''tvdb'', JNum 5), (''imdb'', JStr [])]),
            [CallTMDB ''tv/1'' [(''append_to_response'', ''external_ids'')]])"
    by (simp add: task_eval db_tmdb_def item_env_tvdb_5_def zero_item_def)
  note movie_instance = status_precedence
         [of "{1}" "{1}" 1 db_tmdb appCache item_env_down "[(''id'', JNum 1)]"
             "zero_item\<lparr>TmdbID := 1, RequestStatus := ''exists'', Source := ''tmdb''\<rparr>" appCache
             "[CallTMDB ''movie/1'' [(''append_to_response'', ''external_ids'')]]"]
  note tv_instance = status_precedence
         [where e = "{5}" and r = "{5}" and i = 5 and db = db_tmdb and c = appCache
            and env = item_env_tvdb_5 and tv = "[(''id'', JNum 1)]"
            and it' = "zero_item\<lparr>TmdbID := 1, TvdbID := 5, RequestStatus := ''exists'', Source := ''tmdb''\<rparr>"
            and c'' = "Set appCache 2 (tv_key 1) (VMap [(''tvdb'', JNum 5), (''imdb'', JStr [])])"
            and calls' = "[CallTMDB ''tv/1'' [(''append_to_response'', ''external_ids'')]]"]
  note zero_instance = status_precedence [of "{0}" "{0}" 0]
  have ms: "RequestStatus (zero_item\<lparr>TmdbID := 1, RequestStatus := ''exists'', Source := ''tmdb''\<rparr>)
       = movie_status {1} {1} 1"
    using movie_instance[THEN conjunct2, THEN conjunct2, THEN conjunct2, THEN conjunct2,
                         THEN conjunct2, THEN conjunct2, THEN conjunct1, THEN mp, OF m]
    by (simp add: zero_item_def)
  have me: "movie_status {1} {1} 1 = ''exists''"
    using movie_instance[THEN conjunct1] by simp
  have ts: "RequestStatus (zero_item\<lparr>TmdbID := 1, TvdbID := 5, RequestStatus := ''exists'', Source := ''tmdb''\<rparr>)
       = tv_status {5} {5} 5"
    using tv_instance[THEN conjunct2, THEN conjunct2, THEN conjunct2, THEN conjunct2,
                      THEN conjunct2, THEN conjunct2, THEN conjunct2, THEN mp, OF t]
    by (simp add: zero_item_def)
  have te: "tv_status {5} {5} 5 = ''exists''"
    using tv_instance[THEN conjunct2, THEN conjunct2, THEN conjunct2, THEN conjunct1] by simp
  have ta: "tv_status {0} {0} 0 = ''available''"
    using zero_instance[THEN conjunct2, THEN conjunct2, THEN conjunct2, THEN conjunct2,
                        THEN conjunct2, THEN conjunct1] by simp
  show ?thesis
    by (intro conjI) (rule m ms me t ts te ta)+
qed

lemma movie_resolve_failed:
  "Get c (i_get_time env) (movie_key i) = None \<Longrightarrow>
   request db (''movie/'' @ Sprintf_d i) [(''append_to_response'', ''external_ids'')] (detail_reply env)
     = (Inl err, calls) \<Longrightarrow>
   movie_resolve db c env i = Ret ([], c, calls)"
  by (simp add: movie_resolve_def)

lemma movie_resolve_retries:
  "Get c (i_get_time env) (movie_key i) = None \<Longrightarrow> i_get_time env \<le> i_get_time env' \<Longrightarrow>
   GetSetting db ''tmdb_api_key'' \<noteq> [] \<Longrightarrow>
   \<exists>imdb c'. movie_resolve db c env' i
     = Ret (imdb, c', [CallTMDB (''movie/'' @ Sprintf_d i) [(''append_to_response'', ''external_ids'')]])"
  by (auto simp: movie_resolve_def request_def Let_def dest: Get_miss_later
           split: http_result.splits option.splits)

lemma movie_resolve_no_identifier:
  "Get c (i_get_time env) (movie_key i) = None \<Longrightarrow>
   request db (''movie/'' @ Sprintf_d i) [(''append_to_response'', ''external_ids'')] (detail_reply env)
     = (Inr details, calls) \<Longrightarrow>
   movie_imdb_id details = [] \<Longrightarrow>
   movie_resolve db c env i = Ret ([], Set c (i_set_time env) (movie_key i) (VString []), calls)"
  by (simp add: movie_resolve_def)

lemma movie_resolve_reuses:
  "i_get_time env' \<le> t + ttl c \<Longrightarrow>
   movie_resolve db' (Set c t (movie_key i) (VString s)) env' i
     = Ret (s, Set c t (movie_key i) (VString s), [])"
  by (simp add: movie_resolve_def Get_Set_same)

lemma tv_resolve_failed:
  "Get c (i_get_time env) (tv_key i) = None \<Longrightarrow>
   request db (''tv/'' @ Sprintf_d i) [(''append_to_response'', ''external_ids'')] (detail_reply env)
     = (Inl err, calls) \<Longrightarrow>
   tv_resolve db c env i = Ret ((0, []), c, calls)"
  by (simp add: tv_resolve_def)

lemma tv_resolve_retries:
  "Get c (i_get_time env) (tv_key i) = None \<Longrightarrow> i_get_time env \<le> i_get_time env' \<Longrightarrow>
   GetSetting db ''tmdb_api_key'' \<noteq> [] \<Longrightarrow>
   \<exists>ids c'. tv_resolve db c env' i
     = Ret (ids, c', [CallTMDB (''tv/'' @ Sprintf_d i) [(''append_to_response'', ''external_ids'')]])"
  by (auto simp: tv_resolve_def request_def Let_def dest: Get_miss_later
           split: http_result.splits option.splits prod.splits)

lemma tv_resolve_no_identifier:
  "Get c (i_get_time env) (tv_key i) = None \<Longrightarrow>
   request db (''tv/'' @ Sprintf_d i) [(''append_to_response'', ''external_ids'')] (detail_reply env)
     = (Inr details, calls) \<Longrightarrow>
   tv_external_ids details = (0, []) \<Longrightarrow>
   tv_resolve db c env i
     = Ret ((0, []),
            Set c (i_set_time env) (tv_key i) (VMap [(''tvdb'', JNum 0), (''imdb'', JStr [])]), calls)"
  by (simp add: tv_resolve_def)

lemma tv_resolve_reuses:
  "min_int \<le> n \<Longrightarrow> n \<le> max_int \<Longrightarrow> i_get_time env' \<le> t + ttl c \<Longrightarrow>
   tv_resolve db' (Set c t (tv_key i) (VMap [(''tvdb'', JNum (of_int n)), (''imdb'', JStr s)])) env' i
     = Ret ((n, s), Set c t (tv_key i) (VMap [(''tvdb'', JNum (of_int n)), (''imdb'', JStr s)]), [])"
  by (simp add: tv_resolve_def Get_Set_same jget_def int_of_float64_of_int)

text \<open>
  Claim C10. The resolution of an item's external identifier caches a success and not a
  failure. When the item is not in the cache and the detail request fails, the cache is left
  as it was, and a later resolution of the item on that cache (with the API key configured)
  sends the detail request again. When the detail request succeeds and the details hold no
  external identifier, the empty identifier is stored with the default TTL, and a resolution
  that reads the cache no later than the write instant plus that TTL returns the stored
  empty identifier without any request. This holds for movies (an IMDB identifier, stored as
  a string) and for shows (a TVDB and an IMDB identifier, stored as a map).
\<close>

theorem resolution_caches_success_not_failure:
  "(Get c (i_get_time env) (movie_key i) = None
      \<and> request db (''movie/'' @ Sprintf_d i) [(''append_to_response'', ''external_ids'')]
            (detail_reply env) = (Inl err, calls)
      \<longrightarrow> movie_resolve db c env i = Ret ([], c, calls))
   \<and> (Get c (i_get_time env) (movie_key i) = None \<and> i_get_time env \<le> i_get_time env'
      \<and> GetSetting db ''tmdb_api_key'' \<noteq> []
      \<longrightarrow> (\<exists>imdb c'. movie_resolve db c env' i
             = Ret (imdb, c', [CallTMDB (''movie/'' @ Sprintf_d i)
                                 [(''append_to_response'', ''external_ids'')]])))
   \<and> (Get c (i_get_time env) (movie_key i) = None
      \<and> request db (''movie/'' @ Sprintf_d i) [(''append_to_response'', ''external_ids'')]
            (detail_reply env) = (Inr details, calls)
      \<and> movie_imdb_id details = []
      \<longrightarrow> movie_resolve db c env i
            = Ret ([], Set c (i_set_time env) (movie_key i) (VString []), calls))
   \<and> (i_get_time env' \<le> t + ttl c
      \<longrightarrow> movie_resolve db' (Set c t (movie_key i) (VString [])) env' i
            = Ret ([], Set c t (movie_key i) (VString []), []))
   \<and> (Get c (i_get_time env) (tv_key i) = None
      \<and> request db (''tv/'' @ Sprintf_d i) [(''append_to_response'', ''external_ids'')]
            (detail_reply env) = (Inl err, calls)
      \<longrightarrow> tv_resolve db c env i = Ret ((0, []), c, calls))
   \<and> (Get c (i_get_time env) (tv_key i) = None \<and> i_get_time env \<le> i_get_time env'
      \<and> GetSetting db ''tmdb_api_key'' \<noteq> []
      \<longrightarrow> (\<exists>ids c'. tv_resolve db c env' i
             = Ret (ids, c', [CallTMDB (''tv/'' @ Sprintf_d i)
                                [(''append_to_response'', ''external_ids'')]])))
   \<and> (Get c (i_get_time env) (tv_key i) = None
      \<and> request db (''tv/'' @ Sprintf_d i) [(''append_to_response'', ''external_ids'')]
            (detail_reply env) = (Inr details, calls)
      \<and> tv_external_ids details = (0, [])
      \<longrightarrow> tv_resolve db c env i
            = Ret ((0, []),
                   Set c (i_set_time env) (tv_key i) (VMap [(''tvdb'', JNum 0), (''imdb'', JStr [])]),
                   calls))
   \<and> (i_get_time env' \<le> t + ttl c
      \<longrightarrow> tv_resolve db' (Set c t (tv_key i) (VMap [(''tvdb'', JNum 0), (''imdb'', JStr [])])) env' i
            = Ret ((0, []), Set c t (tv_key i) (VMap [(''tvdb'', JNum 0), (''imdb'', JStr [])]), []))"
  using movie_resolve_failed[of c env i db err calls]
        movie_resolve_retries[of c env i env' db]
        movie_resolve_no_identifier[of c env i db details calls]
        movie_resolve_reuses[of env' t c db' i "[]"]
        tv_resolve_failed[of c env i db err calls]
        tv_resolve_retries[of c env i env' db]
        tv_resolve_no_identifier[of c env i db details calls]
        tv_resolve_reuses[where n = 0 and env' = env' and t = t and c = c and db' = db'
                            and i = i and s = "[]"]
  by (simp add: min_int_def max_int_def)

theorem resolution_caches_success_not_failure_witness:
  "Get appCache (i_get_time item_env_down) (movie_key 1) = None
   \<and> request db_tmdb (''movie/'' @ Sprintf_d 1) [(''append_to_response'', ''external_ids'')]
        (detail_reply item_env_down)
       = (Inl TransportFailed, [CallTMDB ''movie/1'' [(''append_to_response'', ''external_ids'')]])
   \<and> movie_resolve db_tmdb appCache item_env_down 1
       = Ret ([], appCache, [CallTMDB ''movie/1'' [(''append_to_response'', ''external_ids'')]])
   \<and> i_get_time item_env_down \<le> i_get_time item_env_no_ids
   \<and> GetSetting db_tmdb ''tmdb_api_key'' \<noteq> []
   \<and> request db_tmdb (''movie/'' @ Sprintf_d 1) [(''append_to_response'', ''external_ids'')]
        (detail_reply item_env_no_ids)
       = (Inr [], [CallTMDB ''movie/1'' [(''append_to_response'', ''external_ids'')]])
   \<and> movie_imdb_id [] = []
   \<and> movie_resolve db_tmdb appCache item_env_no_ids 1
       = Ret ([], Set appCache 2 (movie_key 1) (VString []),
              [CallTMDB ''movie/1'' [(''append_to_response'', ''external_ids'')]])
   \<and> i_get_time item_env_down \<le> 2 + ttl appCache
   \<and> movie_resolve db_tmdb (Set appCache 2 (movie_key 1) (VString [])) item_env_down 1
       = Ret ([], Set appCache 2 (movie_key 1) (VString []), [])
   \<and> Get appCache (i_get_time item_env_down) (tv_key 1) = None
   \<and> tv_resolve db_tmdb appCache item_env_down 1
       = Ret ((0, []), appCache, [CallTMDB ''tv/1'' [(''append_to_response'', ''external_ids'')]])
   \<and> tv_external_ids [] = (0, [])
   \<and> tv_resolve db_tmdb appCache item_env_no_ids 1
       = Ret ((0, []), Set appCache 2 (tv_key 1) (VMap [(''tvdb'', JNum 0), (''imdb'', JStr [])]),
              [CallTMDB ''tv/1'' [(''append_to_response'', ''external_ids'')]])
   \<and> tv_resolve db_tmdb (Set appCache 2 (tv_key 1) (VMap [(''tvdb'', JNum 0), (''imdb'', JStr [])]))
        item_env_down 1
       = Ret ((0, []), Set appCache 2 (tv_key 1) (VMap [(''tvdb'', JNum 0), (''imdb'', JStr [])]), [])"
proof -
  have miss_m: "Get appCache (i_get_time item_env_down) (movie_key 1) = None"
    and miss_t: "Get appCache (i_get_time item_env_down) (tv_key 1) = None"
    by (simp_all add: Get_def appCache_def NewCache_def)
  have key: "GetSetting db_tmdb ''tmdb_api_key'' \<noteq> []"
    by (simp add: GetSetting_def db_tmdb_def)
  have fail_m: "request db_tmdb (''movie/'' @ Sprintf_d 1) [(''append_to_response'', ''external_ids'')]
        (detail_reply item_env_down)
       = (Inl TransportFailed, [CallTMDB ''movie/1'' [(''append_to_response'', ''external_ids'')]])"
    and fail_t: "request db_tmdb (''tv/'' @ Sprintf_d 1) [(''append_to_response'', ''external_ids'')]
        (detail_reply item_env_down)
       = (Inl TransportFailed, [CallTMDB ''tv/1'' [(''append_to_response'', ''external_ids'')]])"
    by (simp_all add: request_def GetSetting_def db_tmdb_def item_env_down_def Sprintf_d_1)
  have ok_m: "request db_tmdb (''movie/'' @ Sprintf_d 1) [(''append_to_response'', ''external_ids'')]
        (detail_reply item_env_no_ids)
       = (Inr [], [CallTMDB ''movie/1'' [(''append_to_response'', ''external_ids'')]])"
    and ok_t: "request db_tmdb (''tv/'' @ Sprintf_d 1) [(''append_to_response'', ''external_ids'')]
        (detail_reply item_env_no_ids)
       = (Inr [], [CallTMDB ''tv/1'' [(''append_to_response'', ''external_ids'')]])"
    by (simp_all add: request_def GetSetting_def db_tmdb_def item_env_no_ids_def Sprintf_d_1
          decode_map_def)
  have none_m: "movie_imdb_id [] = []" and none_t: "tv_external_ids [] = (0, [])"
    by (simp_all add: movie_imdb_id_def tv_external_ids_def jget_def)
  have times: "i_get_time item_env_down \<le> i_get_time item_env_no_ids"
      "i_get_time item_env_down \<le> 2 + ttl appCache"
      "i_set_time item_env_no_ids = 2"
    by (simp_all add: item_env_down_def item_env_no_ids_def appCache_def NewCache_def minute_def)
  note fail = resolution_caches_success_not_failure
      [where c = appCache and env = item_env_down and i = 1 and db = db_tmdb
         and err = TransportFailed and env' = item_env_down and t = 2 and db' = db_tmdb
         and calls = "[CallTMDB ''movie/1'' [(''append_to_response'', ''external_ids'')]]"]
  note fail' = resolution_caches_success_not_failure
      [where c = appCache and env = item_env_down and i = 1 and db = db_tmdb
         and err = TransportFailed and env' = item_env_down and t = 2 and db' = db_tmdb
         and calls = "[CallTMDB ''tv/1'' [(''append_to_response'', ''external_ids'')]]"]
  note ok = resolution_caches_success_not_failure
      [where c = appCache and env = item_env_no_ids and i = 1 and db = db_tmdb
         and details = "[]" and env' = item_env_down and t = 2 and db' = db_tmdb
         and calls = "[CallTMDB ''movie/1'' [(''append_to_response'', ''external_ids'')]]"]
  note ok' = resolution_caches_success_not_failure
      [where c = appCache and env = item_env_no_ids and i = 1 and db = db_tmdb
         and details = "[]" and env' = item_env_down and t = 2 and db' = db_tmdb
         and calls = "[CallTMDB ''tv/1'' [(''append_to_response'', ''external_ids'')]]"]
  have miss_m': "Get appCache (i_get_time item_env_no_ids) (movie_key 1) = None"
    and miss_t': "Get appCache (i_get_time item_env_no_ids) (tv_key 1) = None"
    by (simp_all add: Get_def appCache_def NewCache_def)
  from fail miss_m fail_m have r1: "movie_resolve db_tmdb appCache item_env_down 1
       = Ret ([], appCache, [CallTMDB ''movie/1'' [(''append_to_response'', ''external_ids'')]])"
    by blast
  from fail' miss_t fail_t have r2: "tv_resolve db_tmdb appCache item_env_down 1
       = Ret ((0, []), appCache, [CallTMDB ''tv/1'' [(''append_to_response'', ''external_ids'')]])"
    by blast
  from ok miss_m' ok_m none_m times(3) have r3: "movie_resolve db_tmdb appCache item_env_no_ids 1
       = Ret ([], Set appCache 2 (movie_key 1) (VString []),
              [CallTMDB ''movie/1'' [(''append_to_response'', ''external_ids'')]])"
    by simp
  from ok' miss_t' ok_t none_t times(3) have r4: "tv_resolve db_tmdb appCache item_env_no_ids 1
       = Ret ((0, []), Set appCache 2 (tv_key 1) (VMap [(''tvdb'', JNum 0), (''imdb'', JStr [])]),
              [CallTMDB ''tv/1'' [(''append_to_response'', ''external_ids'')]])"
    by simp
  from fail times(2) have r5: "movie_resolve db_tmdb (Set appCache 2 (movie_key 1) (VString [])) item_env_down 1
       = Ret ([], Set appCache 2 (movie_key 1) (VString []), [])"
    by blast
  from fail times(2) have r6:
    "tv_resolve db_tmdb (Set appCache 2 (tv_key 1) (VMap [(''tvdb'', JNum 0), (''imdb'', JStr [])]))
        item_env_down 1
       = Ret ((0, []), Set appCache 2 (tv_key 1) (VMap [(''tvdb'', JNum 0), (''imdb'', JStr [])]), [])"
    by blast
  from miss_m fail_m r1 times(1,2) key ok_m none_m r3 r5 miss_t r2 none_t r4 r6
  show ?thesis by blast
qed

section \<open>The services keep the cache well typed\<close>

lemma cache_typed_NewCache: "cache_typed (NewCache d)"
  by (simp add: cache_typed_def NewCache_def)

lemma cache_typed_cleanup: "cache_typed c \<Longrightarrow> cache_typed (cleanup c t)"
  by (auto simp: cache_typed_def cleanup_def split: option.splits if_splits)

lemma cache_typed_Delete: "cache_typed c \<Longrightarrow> cache_typed (Delete c key)"
  by (auto simp: cache_typed_def Delete_def split: if_splits)

lemma value_fits_ratings_key: "value_fits (ratings_key title year mediaType) (VRatings r)"
  by (simp add: value_fits_def ratings_key_def)

lemma GetRatings_typed:
  "cache_typed c \<Longrightarrow> GetRatings db c env title year mediaType imdbID tmdbID = Ret (x, c', calls)
     \<Longrightarrow> cache_typed c'"
  by (auto simp: GetRatings_def Let_def cache_typed_Set value_fits_ratings_key
           split: option.splits cval.splits outcome.splits prod.splits)

lemma value_fits_tv_key:
  "value_fits (tv_key i) (VMap [(''tvdb'', JNum x), (''imdb'', JStr s)])"
  by (simp add: value_fits_def tv_key_def jget_def)

lemma value_fits_existing_series: "value_fits ''existing_series'' (VIDs ids)"
  by (simp add: value_fits_def)

lemma tv_task_typed:
  "cache_typed c \<Longrightarrow> tv_task db e r c env m = Ret (it, c', calls) \<Longrightarrow> cache_typed c'"
  by (auto simp: tv_task_def tv_resolve_def Let_def cache_typed_Set value_fits_tv_key
           split: option.splits cval.splits outcome.splits prod.splits sum.splits)

lemma getExistingSeriesIDs_typed:
  "cache_typed c \<Longrightarrow> getExistingSeriesIDs db c env = Ret (x, c', calls) \<Longrightarrow> cache_typed c'"
  by (auto simp: getExistingSeriesIDs_def getExistingIDs_def Let_def cache_typed_SetWithTTL
                 value_fits_existing_series
           split: if_splits option.splits cval.splits sum.splits)

lemma run_tasks_keeps:
  assumes step: "\<And>c env m it c' calls. P c \<Longrightarrow> task c env m = Ret (it, c', calls) \<Longrightarrow> P c'"
  shows "P c \<Longrightarrow> run_tasks task envs raws sched slots c calls = Ret (slots', c', calls') \<Longrightarrow> P c'"
proof (induction sched arbitrary: slots c calls)
  case Nil
  then show ?case by simp
next
  case (Cons idx sched)
  from Cons.prems(2) obtain it c1 calls1 where
    task: "task c (envs idx) (raws ! idx) = Ret (it, c1, calls1)"
    and rest: "run_tasks task envs raws sched (slots[idx := it]) c1 (calls @ calls1)
                 = Ret (slots', c', calls')"
    by (auto split: if_splits outcome.splits)
  from step[OF Cons.prems(1) task] have "P c1" .
  from Cons.IH[OF this rest] show ?case .
qed

lemma enrich_page_typed:
  assumes ex: "\<And>c env x c' calls. cache_typed c \<Longrightarrow> getExisting db c env = Ret (x, c', calls) \<Longrightarrow> cache_typed c'"
      and task: "\<And>e r c env m it c' calls. cache_typed c \<Longrightarrow> task db e r c env m = Ret (it, c', calls) \<Longrightarrow> cache_typed c'"
      and typed: "cache_typed c"
      and run: "enrich_page getExisting mediaType task db c env data = Ret (x, c', calls)"
  shows "cache_typed c'"
proof -
  from run obtain ex1 c1 calls1 e r raws slots0 slots calls3 where
    e1: "getExisting db c (existing_env env) = Ret (ex1, c1, calls1)"
    and rt: "run_tasks (task db e r) (task_env env) raws (schedule env) slots0 c1 [] = Ret (slots, c', calls3)"
    by (auto simp: enrich_page_def Let_def split: option.splits outcome.splits prod.splits)
  from ex[OF typed e1] have "cache_typed c1" .
  from run_tasks_keeps[where P = cache_typed and task = "task db e r", OF task this rt]
  show ?thesis .
qed

lemma getExistingMovieIDs_keeps:
  "cache_typed c \<Longrightarrow> getExistingMovieIDs db c env = Ret (x, c', calls) \<Longrightarrow> cache_typed c'"
  by (auto simp: getExistingMovieIDs_def getExistingIDs_def Let_def cache_typed_SetWithTTL
                 value_fits_existing_movies
           split: if_splits option.splits cval.splits sum.splits)

lemma DiscoverMovies_typed:
  assumes typed: "cache_typed c"
      and run: "DiscoverMovies db c env page sortBy year = Ret (x, c', calls)"
  shows "cache_typed c'"
proof (cases "request db ''discover/movie'' (movie_params page sortBy year) (discover_reply env)")
  case (Pair res calls0)
  show ?thesis
  proof (cases res)
    case (Inl err)
    with Pair run typed show ?thesis by (simp add: DiscoverMovies_def)
  next
    case (Inr data)
    with Pair run obtain p calls1 where
      "enrich_page getExistingMovieIDs ''movie'' movie_task db c env data = Ret (p, c', calls1)"
      by (auto simp: DiscoverMovies_def split: outcome.splits)
    from enrich_page_typed[OF getExistingMovieIDs_keeps movie_task_typed typed this]
    show ?thesis .
  qed
qed

lemma DiscoverTV_typed:
  assumes typed: "cache_typed c"
      and run: "DiscoverTV db c env page sortBy year = Ret (x, c', calls)"
  shows "cache_typed c'"
proof (cases "request db ''discover/tv'' (tv_params page sortBy year) (discover_reply env)")
  case (Pair res calls0)
  show ?thesis
  proof (cases res)
    case (Inl err)
    with Pair run typed show ?thesis by (simp add: DiscoverTV_def)
  next
    case (Inr data)
    with Pair run obtain p calls1 where
      "enrich_page getExistingSeriesIDs ''series'' tv_task db c env data = Ret (p, c', calls1)"
      by (auto simp: DiscoverTV_def split: outcome.splits)
    from enrich_page_typed[OF getExistingSeriesIDs_typed tv_task_typed typed this]
    show ?thesis .
  qed
qed

end
